theory Spec2Isabelle
  imports Complex_Main "HOL-Library.Word"
begin

section \<open>Numbers, errors and the colour record\<close>

text \<open>
  JavaScript numbers are modelled as real numbers: every quantity of the generator
  (channels, hue, saturation, lightness, luminance, contrast ratio) is a \<^typ>\<open>real\<close>,
  and integer-valued quantities (slot indices, table entries, palette sizes) are
  \<^typ>\<open>nat\<close> or \<^typ>\<open>int\<close>. Rounding of IEEE doubles and the value NaN are outside
  the model; where the source would compute with \<open>undefined\<close> the model says so at the
  place.
\<close>

datatype error =
    TypeError  \<comment> \<open>a property read on \<open>undefined\<close> or \<open>null\<close>\<close>
  | NaNColor   \<comment> \<open>no exception of the source: the source goes on with a colour whose
                  components are NaN, which the real numbers cannot express\<close>

record rgb =
  rgb_r :: real
  rgb_g :: real
  rgb_b :: real

record hsl =
  hsl_h :: real
  hsl_s :: real
  hsl_l :: real

text \<open>A \<open>ColorUtil\<close> object whose three fields have been assigned.\<close>

record color =
  hex :: string
  rgb :: rgb
  hsl :: hsl

text \<open>The remainder operator \<open>%\<close> of JavaScript on numbers: the quotient is truncated
  towards zero, so the result has the sign of the dividend.\<close>

definition trunc :: "real \<Rightarrow> int" where
  "trunc x = (if 0 \<le> x then \<lfloor>x\<rfloor> else \<lceil>x\<rceil>)"

definition jsmod :: "real \<Rightarrow> real \<Rightarrow> real" where
  "jsmod x y = x - y * of_int (trunc (x / y))"

text \<open>\<open>Math.round\<close>: the nearest integer, halves rounded up.\<close>

definition Math_round :: "real \<Rightarrow> int" where
  "Math_round x = \<lfloor>x + 1 / 2\<rfloor>"

section \<open>ColorUtil\<close>

subsection \<open>hexToRgb\<close>

text \<open>The pattern \<open>/^#?([a-f\d]{2})([a-f\d]{2})([a-f\d]{2})$/i\<close>: an optional \<open>#\<close>, then
  exactly six hexadecimal digits of either case. \<open>parseInt(_, 16)\<close> reads each pair.\<close>

definition isHexDigit :: "char \<Rightarrow> bool" where
  "isHexDigit c = (c \<in> set ''0123456789abcdefABCDEF'')"

definition hexDigitValue :: "char \<Rightarrow> nat" where
  "hexDigitValue c =
     (let n = of_char c :: nat in
      if 48 \<le> n \<and> n \<le> 57 then n - 48
      else if 97 \<le> n \<and> n \<le> 102 then n - 87
      else n - 55)"

definition parseHexPair :: "string \<Rightarrow> real" where
  "parseHexPair p = real (16 * hexDigitValue (p ! 0) + hexDigitValue (p ! 1))"

definition hexToRgb :: "string \<Rightarrow> rgb option" where
  "hexToRgb hx =
     (let body = (case hx of c # t \<Rightarrow> if c = CHR ''#'' then t else hx | [] \<Rightarrow> hx) in
      if length body = 6 \<and> list_all isHexDigit body
      then Some \<lparr>rgb_r = parseHexPair (take 2 body),
                 rgb_g = parseHexPair (take 2 (drop 2 body)),
                 rgb_b = parseHexPair (take 2 (drop 4 body))\<rparr>
      else None)"

subsection \<open>rgbToHex\<close>

text \<open>\<open>"#" + ((1 << 24) + (Math.round(r) << 16) + (Math.round(g) << 8) +
  Math.round(b)).toString(16).slice(1)\<close>. The shift works on 32-bit signed integers; the
  additions are additions of numbers.\<close>

definition shl32 :: "int \<Rightarrow> nat \<Rightarrow> int" where
  "shl32 n k = sint (push_bit k (word_of_int n :: 32 word))"

definition hexDigitChar :: "nat \<Rightarrow> char" where
  "hexDigitChar d = ''0123456789abcdef'' ! d"

fun natToString16 :: "nat \<Rightarrow> string" where
  "natToString16 n =
     (if n < 16 then [hexDigitChar n]
      else natToString16 (n div 16) @ [hexDigitChar (n mod 16)])"

declare natToString16.simps [simp del]

definition toString16 :: "int \<Rightarrow> string" where
  "toString16 n = (if n < 0 then CHR ''-'' # natToString16 (nat (- n)) else natToString16 (nat n))"

definition rgbToHex :: "real \<Rightarrow> real \<Rightarrow> real \<Rightarrow> string" where
  "rgbToHex r g b =
     CHR ''#'' # drop 1 (toString16 (shl32 1 24 + shl32 (Math_round r) 16
                                      + shl32 (Math_round g) 8 + Math_round b))"

subsection \<open>rgbToHsl and hslToRgb\<close>

definition rgbToHsl :: "real \<Rightarrow> real \<Rightarrow> real \<Rightarrow> hsl" where
  "rgbToHsl r0 g0 b0 =
     (let r = r0 / 255; g = g0 / 255; b = b0 / 255;
          mx = max (max r g) b; mn = min (min r g) b;
          l = (mx + mn) / 2
      in if mx = mn then \<lparr>hsl_h = 0 * 360, hsl_s = 0 * 100, hsl_l = l * 100\<rparr>
         else
           let d = mx - mn;
               s = (if l > 0.5 then d / (2 - mx - mn) else d / (mx + mn));
               h = (if mx = r then (g - b) / d + (if g < b then 6 else 0)
                    else if mx = g then (b - r) / d + 2
                    else (r - g) / d + 4)
           in \<lparr>hsl_h = h / 6 * 360, hsl_s = s * 100, hsl_l = l * 100\<rparr>)"

definition hue2rgb :: "real \<Rightarrow> real \<Rightarrow> real \<Rightarrow> real" where
  "hue2rgb p q t0 =
     (let t1 = (if t0 < 0 then t0 + 1 else t0);
          t = (if t1 > 1 then t1 - 1 else t1)
      in if t < 1 / 6 then p + (q - p) * 6 * t
         else if t < 1 / 2 then q
         else if t < 2 / 3 then p + (q - p) * (2 / 3 - t) * 6
         else p)"

definition hslToRgb :: "real \<Rightarrow> real \<Rightarrow> real \<Rightarrow> rgb" where
  "hslToRgb h0 s0 l0 =
     (let h = h0 / 360; s = s0 / 100; l = l0 / 100
      in if s = 0 then \<lparr>rgb_r = l * 255, rgb_g = l * 255, rgb_b = l * 255\<rparr>
         else
           let q = (if l < 0.5 then l * (1 + s) else l + s - l * s);
               p = 2 * l - q
           in \<lparr>rgb_r = hue2rgb p q (h + 1 / 3) * 255,
               rgb_g = hue2rgb p q h * 255,
               rgb_b = hue2rgb p q (h - 1 / 3) * 255\<rparr>)"

subsection \<open>The constructor and fromHsl\<close>

text \<open>
  \<open>new ColorUtil(color)\<close> for a string argument. A string that starts with \<open>#\<close> has
  \<open>hex\<close>, \<open>rgb\<close> and \<open>hsl\<close> assigned in this order; when \<open>hexToRgb\<close> returns
  \<open>null\<close> the read \<open>this.rgb.r\<close> raises. A string that does not start with \<open>#\<close>
  assigns nothing and the constructor returns: the result \<open>Inr None\<close> is the object
  without fields.
\<close>

definition startsWithHash :: "string \<Rightarrow> bool" where
  "startsWithHash str = (case str of c # _ \<Rightarrow> c = CHR ''#'' | [] \<Rightarrow> False)"

definition ColorUtil_new :: "string \<Rightarrow> error + color option" where
  "ColorUtil_new str =
     (if startsWithHash str then
        (case hexToRgb str of
           None \<Rightarrow> Inl TypeError
         | Some c \<Rightarrow> Inr (Some \<lparr>hex = str, rgb = c,
                                hsl = rgbToHsl (rgb_r c) (rgb_g c) (rgb_b c)\<rparr>))
      else Inr None)"

definition fromHsl :: "real \<Rightarrow> real \<Rightarrow> real \<Rightarrow> color" where
  "fromHsl h s l =
     (let c = hslToRgb h s l
      in \<lparr>hex = rgbToHex (rgb_r c) (rgb_g c) (rgb_b c), rgb = c,
          hsl = \<lparr>hsl_h = h, hsl_s = s, hsl_l = l\<rparr>\<rparr>)"

subsection \<open>Luminance and contrast\<close>

definition linearize :: "real \<Rightarrow> real" where
  "linearize c0 =
     (let c = c0 / 255
      in if c \<le> 0.03928 then c / 12.92 else ((c + 0.055) / 1.055) powr 2.4)"

definition getLuminance :: "color \<Rightarrow> real" where
  "getLuminance c =
     0.2126 * linearize (rgb_r (rgb c)) + 0.7152 * linearize (rgb_g (rgb c))
       + 0.0722 * linearize (rgb_b (rgb c))"

definition getContrastRatio :: "color \<Rightarrow> color \<Rightarrow> real" where
  "getContrastRatio c otherColor =
     (let lum1 = getLuminance c; lum2 = getLuminance otherColor;
          brightest = max lum1 lum2; darkest = min lum1 lum2
      in (brightest + 0.05) / (darkest + 0.05))"

datatype WCAGLevel = AA | AAA

definition meetsWCAGContrast :: "color \<Rightarrow> color \<Rightarrow> WCAGLevel \<Rightarrow> bool" where
  "meetsWCAGContrast c backgroundColor level =
     (let ratio = getContrastRatio c backgroundColor;
          requiredRatio = (if level = AAA then 7 else 4.5)
      in ratio \<ge> requiredRatio)"

section \<open>Colour harmonies\<close>

datatype HarmonyType = Complementary | Triadic | Analogous | Monochromatic | Tetradic

definition colorHarmonies :: "HarmonyType \<Rightarrow> real \<Rightarrow> real list" where
  "colorHarmonies hType hue =
     (case hType of
        Complementary \<Rightarrow> [hue, jsmod (hue + 180) 360]
      | Triadic \<Rightarrow> [hue, jsmod (hue + 120) 360, jsmod (hue + 240) 360]
      | Analogous \<Rightarrow> [hue, jsmod (hue + 25) 360, jsmod (hue + 50) 360,
                      jsmod (hue - 25 + 360) 360, jsmod (hue - 50 + 360) 360]
      | Monochromatic \<Rightarrow> [hue, hue, hue, hue, hue]
      | Tetradic \<Rightarrow> [hue, jsmod (hue + 90) 360, jsmod (hue + 180) 360,
                     jsmod (hue + 270) 360])"

section \<open>PaletteGenerator\<close>

text \<open>The generator object: the two reference colours and the mutable field
  \<open>harmonyType\<close>, which \<open>generatePalette\<close> assigns and \<open>findOptimalColor\<close> reads.\<close>

record PaletteGenerator =
  whiteColor :: color
  darkBgColor :: color
  harmonyType :: HarmonyType

definition white :: color where
  "white = \<lparr>hex = ''#ffffff'', rgb = \<lparr>rgb_r = 255, rgb_g = 255, rgb_b = 255\<rparr>,
            hsl = rgbToHsl 255 255 255\<rparr>"

definition darkBg :: color where
  "darkBg = \<lparr>hex = ''#2c3e50'', rgb = \<lparr>rgb_r = 44, rgb_g = 62, rgb_b = 80\<rparr>,
             hsl = rgbToHsl 44 62 80\<rparr>"

text \<open>The constructor: \<open>new ColorUtil('#ffffff')\<close>, \<open>new ColorUtil('#2c3e50')\<close> (lemma
  \<open>reference_colors\<close> below) and the default \<open>'triadic'\<close>.\<close>

definition PaletteGenerator_new :: PaletteGenerator where
  "PaletteGenerator_new = \<lparr>whiteColor = white, darkBgColor = darkBg, harmonyType = Triadic\<rparr>"

subsection \<open>validateSize\<close>

text \<open>
  \<open>parseInt(size)\<close> for a number: the number is printed and its integer part is read
  back. JavaScript prints a number as a plain decimal when its absolute value is at least
  0.000001 and less than 10 to the power 21 (and when it is 0); on these numbers
  \<open>parseInt\<close> is truncation towards zero, which is what the model computes. Outside
  this range the printed form has an exponent and the model does not apply (predicate
  \<open>plainDecimal\<close> below).
\<close>

definition parseInt :: "real \<Rightarrow> int" where
  "parseInt x = trunc x"

definition validateSize :: "real \<Rightarrow> nat" where
  "validateSize sz =
     (let numSize = parseInt sz
      in if numSize = 3 \<or> numSize = 5 then nat numSize else 5)"

subsection \<open>The base palette\<close>

text \<open>Array reads: \<open>xs[i]\<close> is \<open>undefined\<close> outside the array, and \<open>xs[i] || d\<close> is
  \<open>d\<close> then (and when the entry is 0).\<close>

definition nthOpt :: "'a list \<Rightarrow> int \<Rightarrow> 'a option" where
  "nthOpt xs i = (if 0 \<le> i \<and> i < int (length xs) then Some (xs ! nat i) else None)"

definition nthOr :: "real list \<Rightarrow> int \<Rightarrow> real \<Rightarrow> real" where
  "nthOr xs i d = (case nthOpt xs i of None \<Rightarrow> d | Some v \<Rightarrow> if v = 0 then d else v)"

text \<open>\<open>harmonyHues[index % harmonyHues.length]\<close> is \<open>undefined\<close> for an empty array; the
  monochromatic branch overwrites the hue, the other branch would build a colour from it.\<close>

definition generateColorFromHarmony ::
  "color \<Rightarrow> real list \<Rightarrow> HarmonyType \<Rightarrow> nat \<Rightarrow> nat \<Rightarrow> error + color" where
  "generateColorFromHarmony baseColor harmonyHues hType index totalSize =
     (let hue0 = (if harmonyHues = [] then None
                  else Some (harmonyHues ! (index mod length harmonyHues)))
      in if hType = Monochromatic then
           let hueVariation = (real_of_int (int index - 1)) * 10;
               hue = jsmod (hsl_h (hsl baseColor) + hueVariation) 360;
               saturation = max 30 (min 90 (hsl_s (hsl baseColor)
                                             + real_of_int (int index - 2) * 15));
               lightness = (if totalSize = 3 then nthOr [30, 50, 70] (int index - 1) 50
                            else nthOr [15, 35, 55, 75, 90] (int index - 1) 50);
               saturation' = max 20 (min 95 saturation);
               lightness' = max 10 (min 90 lightness)
           in Inr (fromHsl hue saturation' lightness')
         else
           let saturation = (if totalSize = 3 then nthOr [75, 60, 85] (int index - 1) 70
                             else nthOr [75, 60, 85, 50, 80] (int index - 1) 70);
               lightness = (if totalSize = 3 then nthOr [50, 35, 70] (int index - 1) 50
                            else nthOr [50, 35, 70, 20, 80] (int index - 1) 50);
               saturation1 =
                 (if hType = Complementary then
                    (if index = 1 then min 85 (saturation + 10) else saturation)
                  else if hType = Analogous then max 50 (saturation - 5)
                  else saturation);
               lightness1 =
                 (if hType = Complementary then
                    (if index = 1 then max 20 (lightness - 5) else lightness)
                  else if hType = Analogous then
                    (if index = 2 then min 80 (lightness + 10) else lightness)
                  else if hType = Tetradic then
                    (if index mod 2 = 1 then max 15 (lightness - 10)
                     else min 85 (lightness + 10))
                  else lightness);
               saturation' = max 20 (min 95 saturation1);
               lightness' = max 10 (min 90 lightness1)
           in case hue0 of
                None \<Rightarrow> Inl NaNColor
              | Some hue \<Rightarrow> Inr (fromHsl hue saturation' lightness'))"

text \<open>
  The loop of \<open>generateBaseColors\<close>. Slot 0 evaluates \<open>new ColorUtil(baseColor)\<close> a
  second time, outside the \<open>try\<close>. That call cannot return the object without fields
  here: in that case \<open>color.hsl.h\<close> has raised before the loop starts (lemma
  \<open>generateBaseColors_cases\<close>). The model raises in this dead branch too, so that a
  palette is a list of colours with all fields assigned.
\<close>

function baseColorsLoop ::
  "string \<Rightarrow> color \<Rightarrow> real list \<Rightarrow> HarmonyType \<Rightarrow> nat \<Rightarrow> nat \<Rightarrow> color list
     \<Rightarrow> error + color list" where
  "baseColorsLoop baseColor color harmonyHues hType sz i colors =
     (if i < sz then
        (case (if i = 0 then
                 (case ColorUtil_new baseColor of
                    Inl e \<Rightarrow> Inl e
                  | Inr None \<Rightarrow> Inl TypeError
                  | Inr (Some c) \<Rightarrow> Inr c)
               else generateColorFromHarmony color harmonyHues hType i sz) of
           Inl e \<Rightarrow> Inl e
         | Inr generatedColor \<Rightarrow>
             baseColorsLoop baseColor color harmonyHues hType sz (i + 1)
               (colors @ [generatedColor]))
      else Inr colors)"
  by pat_completeness auto
termination
  by (relation "measure (\<lambda>(baseColor, color, harmonyHues, hType, sz, i, colors). sz - i)")
     auto

declare baseColorsLoop.simps [simp del]

definition generateBaseColors :: "string \<Rightarrow> HarmonyType \<Rightarrow> nat \<Rightarrow> error + color list" where
  "generateBaseColors baseColor hType sz =
     (let color = (case ColorUtil_new baseColor of
                     Inl e \<Rightarrow> ColorUtil_new ''#5500AA''
                   | Inr obj \<Rightarrow> Inr obj)
      in case color of
           Inl e \<Rightarrow> Inl e
         | Inr None \<Rightarrow> Inl TypeError
         | Inr (Some col) \<Rightarrow>
             let baseHue = hsl_h (hsl col);
                 harmonyHues = colorHarmonies hType baseHue
             in baseColorsLoop baseColor col harmonyHues hType sz 0 [])"

subsection \<open>The contrast optimizer\<close>

definition isLightBackground :: "color \<Rightarrow> bool" where
  "isLightBackground backgroundColor = (getLuminance backgroundColor > 0.5)"

definition getTargetLightnessRange :: "bool \<Rightarrow> nat \<Rightarrow> nat \<Rightarrow> HarmonyType \<Rightarrow> int \<times> int" where
  "getTargetLightnessRange isLight colorIndex totalColors hType =
     (if isLight then
        (if hType = Monochromatic then
           (if totalColors = 3 then
              let base = 10 + int colorIndex * 20 in (base, base + 15)
            else
              let base = 10 + int colorIndex * 15 in (base, base + 15))
         else [(15, 35), (25, 45), (35, 55), (20, 40), (10, 30)] ! (colorIndex mod 5))
      else if totalColors = 3 then [(70, 95), (60, 80), (75, 90)] ! (colorIndex mod 3)
      else [(70, 90), (60, 80), (50, 70), (65, 85), (75, 95)] ! (colorIndex mod 5))"

text \<open>The loop of \<open>expandedColorSearch\<close>: at most 45 rounds, counted down by the first
  argument; \<open>delta\<close> is \<open>searchDirection * step\<close>.\<close>

fun expandedLoop ::
  "nat \<Rightarrow> hsl \<Rightarrow> color \<Rightarrow> real \<Rightarrow> real \<Rightarrow> real \<Rightarrow> color \<Rightarrow> real \<Rightarrow> color" where
  "expandedLoop 0 originalHsl backgroundColor targetRatio delta targetLightness
       bestColor bestContrast = bestColor"
| "expandedLoop (Suc n) originalHsl backgroundColor targetRatio delta targetLightness
       bestColor bestContrast =
     (let targetLightness' = targetLightness + delta
      in if targetLightness' < 5 \<or> targetLightness' > 95 then bestColor
         else
           let testColor = fromHsl (hsl_h originalHsl) (hsl_s originalHsl) targetLightness';
               testContrast = getContrastRatio testColor backgroundColor
           in if testContrast \<ge> targetRatio then testColor
              else if testContrast > bestContrast then
                expandedLoop n originalHsl backgroundColor targetRatio delta
                  targetLightness' testColor testContrast
              else
                expandedLoop n originalHsl backgroundColor targetRatio delta
                  targetLightness' bestColor bestContrast)"

definition expandedColorSearch ::
  "hsl \<Rightarrow> color \<Rightarrow> real \<Rightarrow> bool \<Rightarrow> int \<times> int \<Rightarrow> color \<Rightarrow> color" where
  "expandedColorSearch originalHsl backgroundColor targetRatio isLight
       targetLightnessRange bestColor =
     (let step = (if targetRatio \<ge> 7 then 1 else 2) :: real;
          searchDirection = (if isLight then - 1 else 1) :: real;
          targetLightness =
            (real_of_int (fst targetLightnessRange) + real_of_int (snd targetLightnessRange)) / 2;
          bestContrast = getContrastRatio bestColor backgroundColor
      in expandedLoop 45 originalHsl backgroundColor targetRatio (searchDirection * step)
           targetLightness bestColor bestContrast)"

text \<open>The scan of \<open>findOptimalColor\<close> over the lightness range in steps of 2. It either
  returns a colour from inside the loop or falls through with the best colour so far.\<close>

datatype scanResult = Returned color | Exhausted color

function scanRange ::
  "hsl \<Rightarrow> color \<Rightarrow> real \<Rightarrow> real \<Rightarrow> int \<Rightarrow> int \<Rightarrow> color \<Rightarrow> real \<Rightarrow> scanResult" where
  "scanRange originalHsl backgroundColor targetRatio upperBound l hi bestColor bestContrast =
     (if l \<le> hi then
        let testColor = fromHsl (hsl_h originalHsl) (hsl_s originalHsl) (real_of_int l);
            testContrast = getContrastRatio testColor backgroundColor
        in if testContrast \<ge> targetRatio \<and> testContrast \<le> upperBound then Returned testColor
           else if \<bar>testContrast - targetRatio\<bar> < \<bar>bestContrast - targetRatio\<bar> then
             scanRange originalHsl backgroundColor targetRatio upperBound (l + 2) hi
               testColor testContrast
           else
             scanRange originalHsl backgroundColor targetRatio upperBound (l + 2) hi
               bestColor bestContrast
      else Exhausted bestColor)"
  by pat_completeness auto
termination
  by (relation "measure (\<lambda>(originalHsl, backgroundColor, targetRatio, upperBound, l, hi,
                           bestColor, bestContrast). nat (hi - l + 1))")
     auto

declare scanRange.simps [simp del]

definition findOptimalColor ::
  "PaletteGenerator \<Rightarrow> color \<Rightarrow> color \<Rightarrow> real \<Rightarrow> real \<Rightarrow> nat \<Rightarrow> nat \<Rightarrow> color" where
  "findOptimalColor this originalColor backgroundColor targetRatio upperBound colorIndex
       totalColors =
     (let originalHsl = hsl originalColor;
          isLight = isLightBackground backgroundColor;
          targetLightnessRange =
            getTargetLightnessRange isLight colorIndex totalColors (harmonyType this);
          bestColor = originalColor;
          bestContrast = getContrastRatio originalColor backgroundColor
      in case scanRange originalHsl backgroundColor targetRatio upperBound
                (fst targetLightnessRange) (snd targetLightnessRange) bestColor bestContrast of
           Returned testColor \<Rightarrow> testColor
         | Exhausted bestColor' \<Rightarrow>
             expandedColorSearch originalHsl backgroundColor targetRatio isLight
               targetLightnessRange bestColor')"

definition optimizeColorForBackground ::
  "PaletteGenerator \<Rightarrow> color \<Rightarrow> color \<Rightarrow> real \<Rightarrow> nat \<Rightarrow> nat \<Rightarrow> color" where
  "optimizeColorForBackground this originalColor backgroundColor targetRatio colorIndex
       totalColors =
     (let currentContrast = getContrastRatio originalColor backgroundColor;
          upperBound = (if targetRatio = 4.5 then 6.0 else 8.5)
      in if currentContrast \<ge> targetRatio then
           (if currentContrast \<le> upperBound then originalColor else originalColor)
         else findOptimalColor this originalColor backgroundColor targetRatio upperBound
                colorIndex totalColors)"

text \<open>\<open>baseColors.map((color, index) => ...)\<close>.\<close>

definition mapIndexed :: "(nat \<Rightarrow> 'a \<Rightarrow> 'b) \<Rightarrow> 'a list \<Rightarrow> 'b list" where
  "mapIndexed f xs = map (\<lambda>(i, x). f i x) (zip [0..<length xs] xs)"

definition generateOptimizedPalette ::
  "PaletteGenerator \<Rightarrow> color list \<Rightarrow> color \<Rightarrow> real \<Rightarrow> color list" where
  "generateOptimizedPalette this baseColors backgroundColor minContrastRatio =
     mapIndexed (\<lambda>index color.
        optimizeColorForBackground this color backgroundColor minContrastRatio index
          (length baseColors)) baseColors"

subsection \<open>The differentiation pass\<close>

definition getCircularHueDistance :: "real \<Rightarrow> real \<Rightarrow> real" where
  "getCircularHueDistance hue1 hue2 =
     (let h1 = jsmod (jsmod hue1 360 + 360) 360;
          h2 = jsmod (jsmod hue2 360 + 360) 360;
          diff = \<bar>h1 - h2\<bar>
      in min diff (360 - diff))"

definition getOptimalLightnessDistribution :: "nat \<Rightarrow> bool \<Rightarrow> real list" where
  "getOptimalLightnessDistribution paletteSize isLight =
     (if isLight then
        (if paletteSize = 3 then [15, 35, 55] else [10, 25, 40, 55, 70])
      else
        (if paletteSize = 3 then [60, 75, 90] else [50, 65, 80, 90, 95]))"

text \<open>The loop \<open>for (let adjustment = 5; adjustment <= 25; adjustment += 5)\<close> of
  \<open>adjustColorToTargetLightness\<close>; \<open>None\<close> when it ends without returning.\<close>

function adjustLoop ::
  "hsl \<Rightarrow> color \<Rightarrow> real \<Rightarrow> real \<Rightarrow> real \<Rightarrow> int \<Rightarrow> color option" where
  "adjustLoop originalHsl backgroundColor minContrastRatio targetLightness searchDirection
       adjustment =
     (if adjustment \<le> 25 then
        let adjustedLightness =
              max 5 (min 95 (targetLightness + searchDirection * real_of_int adjustment));
            testColor = fromHsl (hsl_h originalHsl) (hsl_s originalHsl) adjustedLightness;
            testContrast = getContrastRatio testColor backgroundColor
        in if testContrast \<ge> minContrastRatio then Some testColor
           else adjustLoop originalHsl backgroundColor minContrastRatio targetLightness
                  searchDirection (adjustment + 5)
      else None)"
  by pat_completeness auto
termination
  by (relation "measure (\<lambda>(originalHsl, backgroundColor, minContrastRatio, targetLightness,
                           searchDirection, adjustment). nat (26 - adjustment))")
     auto

declare adjustLoop.simps [simp del]

definition adjustColorToTargetLightness :: "color \<Rightarrow> color \<Rightarrow> real \<Rightarrow> real \<Rightarrow> color" where
  "adjustColorToTargetLightness originalColor backgroundColor minContrastRatio targetLightness =
     (let originalHsl = hsl originalColor;
          testColor = fromHsl (hsl_h originalHsl) (hsl_s originalHsl) targetLightness;
          testContrast = getContrastRatio testColor backgroundColor
      in if testContrast \<ge> minContrastRatio then testColor
         else
           let isLight = isLightBackground backgroundColor;
               searchDirection = (if isLight then - 1 else 1) :: real
           in case adjustLoop originalHsl backgroundColor minContrastRatio targetLightness
                     searchDirection 5 of
                Some c \<Rightarrow> c
              | None \<Rightarrow> originalColor)"

text \<open>
  Stage 1. Each round reads and writes only its own slot. A palette longer than the
  lightness table reads \<open>undefined\<close> as target: every contrast computed from it is NaN,
  every comparison with it is false, and \<open>adjustColorToTargetLightness\<close> returns the
  original colour.
\<close>

definition distributeColorsOptimally ::
  "color list \<Rightarrow> color \<Rightarrow> real \<Rightarrow> real \<Rightarrow> color list" where
  "distributeColorsOptimally palette backgroundColor minContrastRatio minLightnessDiff =
     (let isLight = isLightBackground backgroundColor;
          paletteSize = length palette;
          optimalLightness = getOptimalLightnessDistribution paletteSize isLight
      in mapIndexed (\<lambda>i originalColor.
           case nthOpt optimalLightness (int i) of
             None \<Rightarrow> originalColor
           | Some targetLightness \<Rightarrow>
               adjustColorToTargetLightness originalColor backgroundColor minContrastRatio
                 targetLightness) palette)"

text \<open>Stage 2. The similar pairs are collected first, from the palette as stage 1 left
  it; then every pair rewrites its second slot, reading the palette as it is by then.\<close>

definition similarSaturationPairs :: "color list \<Rightarrow> real \<Rightarrow> (nat \<times> nat) list" where
  "similarSaturationPairs palette minSaturationDiff =
     concat (map (\<lambda>i. map (\<lambda>j. (i, j))
                         (filter (\<lambda>j.
                            let satDiff = \<bar>hsl_s (hsl (palette ! i)) - hsl_s (hsl (palette ! j))\<bar>;
                                lightDiff = \<bar>hsl_l (hsl (palette ! i)) - hsl_l (hsl (palette ! j))\<bar>
                            in satDiff < minSaturationDiff \<and> lightDiff < 15)
                          [i + 1 ..< length palette]))
                 [0 ..< length palette])"

definition adjustSaturationPair :: "real \<Rightarrow> nat \<times> nat \<Rightarrow> color list \<Rightarrow> color list" where
  "adjustSaturationPair minSaturationDiff pair palette =
     (let color1 = palette ! fst pair;
          color2 = palette ! snd pair;
          adjustment = minSaturationDiff + 10;
          newSat = (if hsl_s (hsl color2) > hsl_s (hsl color1)
                    then min 95 (hsl_s (hsl color2) + adjustment)
                    else max 20 (hsl_s (hsl color2) - adjustment));
          adjustedColor = fromHsl (hsl_h (hsl color2)) newSat (hsl_l (hsl color2))
      in palette[snd pair := adjustedColor])"

definition adjustSaturationForDifferentiation :: "color list \<Rightarrow> real \<Rightarrow> color list" where
  "adjustSaturationForDifferentiation palette minSaturationDiff =
     fold (adjustSaturationPair minSaturationDiff)
       (similarSaturationPairs palette minSaturationDiff) palette"

text \<open>Stage 3. The loop over the directions \<open>[1, -1]\<close> stops at the first direction whose
  colour meets the contrast.\<close>

definition veryClosePairs :: "color list \<Rightarrow> (nat \<times> nat) list" where
  "veryClosePairs palette =
     concat (map (\<lambda>i. map (\<lambda>j. (i, j))
                         (filter (\<lambda>j.
                            let color1 = palette ! i; color2 = palette ! j;
                                hueDiff = getCircularHueDistance (hsl_h (hsl color1))
                                            (hsl_h (hsl color2));
                                lightDiff = \<bar>hsl_l (hsl color1) - hsl_l (hsl color2)\<bar>;
                                satDiff = \<bar>hsl_s (hsl color1) - hsl_s (hsl color2)\<bar>
                            in hueDiff < 15 \<and> lightDiff < 10 \<and> satDiff < 10)
                          [i + 1 ..< length palette]))
                 [0 ..< length palette])"

fun tryDirections :: "real list \<Rightarrow> hsl \<Rightarrow> color \<Rightarrow> real \<Rightarrow> real \<Rightarrow> color option" where
  "tryDirections [] originalHsl backgroundColor minContrastRatio maxHueAdjustment = None"
| "tryDirections (direction # rest) originalHsl backgroundColor minContrastRatio
       maxHueAdjustment =
     (let newHue = jsmod (hsl_h originalHsl + direction * maxHueAdjustment + 360) 360;
          testColor = fromHsl newHue (hsl_s originalHsl) (hsl_l originalHsl);
          testContrast = getContrastRatio testColor backgroundColor
      in if testContrast \<ge> minContrastRatio then Some testColor
         else tryDirections rest originalHsl backgroundColor minContrastRatio maxHueAdjustment)"

definition adjustHuePair :: "color \<Rightarrow> real \<Rightarrow> real \<Rightarrow> nat \<times> nat \<Rightarrow> color list \<Rightarrow> color list" where
  "adjustHuePair backgroundColor minContrastRatio maxHueAdjustment pair palette =
     (let color = palette ! snd pair;
          originalHsl = hsl color
      in case tryDirections [1, - 1] originalHsl backgroundColor minContrastRatio
                maxHueAdjustment of
           Some testColor \<Rightarrow> palette[snd pair := testColor]
         | None \<Rightarrow> palette)"

definition applyMinimalHueAdjustments ::
  "color list \<Rightarrow> color \<Rightarrow> real \<Rightarrow> real \<Rightarrow> color list" where
  "applyMinimalHueAdjustments palette backgroundColor minContrastRatio maxHueAdjustment =
     fold (adjustHuePair backgroundColor minContrastRatio maxHueAdjustment)
       (veryClosePairs palette) palette"

text \<open>The monochromatic path.\<close>

definition ensureMinimumContrast ::
  "PaletteGenerator \<Rightarrow> color list \<Rightarrow> color \<Rightarrow> real \<Rightarrow> color list" where
  "ensureMinimumContrast this palette backgroundColor minContrastRatio =
     mapIndexed (\<lambda>i color.
        let contrast = getContrastRatio color backgroundColor
        in if contrast < minContrastRatio then
             findOptimalColor this color backgroundColor minContrastRatio
               (minContrastRatio * 1.5) i (length palette)
           else color) palette"

text \<open>
  \<open>palette[0].hsl.h\<close> raises on an empty palette. The ladder has three or five entries;
  a palette with more than five slots reads \<open>undefined\<close> from it and stores colours
  whose lightness is NaN.
\<close>

definition enhanceMonochromaticDifferentiation ::
  "PaletteGenerator \<Rightarrow> color list \<Rightarrow> color \<Rightarrow> real \<Rightarrow> error + color list" where
  "enhanceMonochromaticDifferentiation this palette backgroundColor minContrastRatio =
     (let isLight = isLightBackground backgroundColor
      in case palette of
           [] \<Rightarrow> Inl TypeError
         | first # _ \<Rightarrow>
             let baseHue = hsl_h (hsl first);
                 lightnessValues = (if length palette = 3 then [15, 50, 85]
                                    else [10, 30, 50, 70, 90]) :: real list
             in if length palette > length lightnessValues then Inl NaNColor
                else
                  Inr (ensureMinimumContrast this
                         (mapIndexed (\<lambda>i color.
                            let hueVariation = real i * 5;
                                newHue = jsmod (baseHue + hueVariation) 360;
                                newLightness = (if isLight then lightnessValues ! i
                                                else 100 - lightnessValues ! i)
                            in fromHsl newHue (max 40 (hsl_s (hsl color))) newLightness)
                          palette)
                         backgroundColor minContrastRatio))"

record DifferentiationSettings =
  enabled :: bool
  minHueDifference :: real
  minLuminanceDifference :: real

definition applySimpleDifferentiation ::
  "PaletteGenerator \<Rightarrow> color list \<Rightarrow> color \<Rightarrow> real \<Rightarrow> DifferentiationSettings
     \<Rightarrow> error + color list" where
  "applySimpleDifferentiation this palette backgroundColor minContrastRatio
       differentiationSettings =
     (let MIN_LIGHTNESS_DIFFERENCE =
            (if minLuminanceDifference differentiationSettings = 0 then 10
             else minLuminanceDifference differentiationSettings);
          MIN_SATURATION_DIFFERENCE = 20;
          MAX_HUE_ADJUSTMENT = 10;
          isMonochromatic =
            list_all (\<lambda>c. getCircularHueDistance (hsl_h (hsl c)) (hsl_h (hsl (hd palette))) < 5)
              palette
      in if isMonochromatic then
           enhanceMonochromaticDifferentiation this palette backgroundColor minContrastRatio
         else
           let palette1 = distributeColorsOptimally palette backgroundColor minContrastRatio
                            MIN_LIGHTNESS_DIFFERENCE;
               palette2 = adjustSaturationForDifferentiation palette1 MIN_SATURATION_DIFFERENCE;
               palette3 = applyMinimalHueAdjustments palette2 backgroundColor minContrastRatio
                            MAX_HUE_ADJUSTMENT
           in Inr palette3)"

subsection \<open>generatePalette\<close>

record Options =
  paletteSize :: real
  wcagLevel :: WCAGLevel
  optHarmonyType :: HarmonyType
  baseColor :: string
  differentiationSettings :: DifferentiationSettings

record GeneratedPalettes =
  base :: "color list"
  lightOptimized :: "color list"
  darkOptimized :: "color list"

text \<open>The result is the returned palettes or the error raised, together with the
  generator, whose field \<open>harmonyType\<close> the call has assigned. The field
  \<open>optHarmonyType\<close> is \<open>options.harmonyType\<close>.\<close>

definition generatePalette ::
  "PaletteGenerator \<Rightarrow> Options \<Rightarrow> (error + GeneratedPalettes) \<times> PaletteGenerator" where
  "generatePalette this0 options =
     (let this = this0\<lparr>harmonyType := optHarmonyType options\<rparr>;
          sz = validateSize (paletteSize options);
          minContrastRatio = (if wcagLevel options = AAA then 7 else 4.5) :: real
      in case generateBaseColors (baseColor options) (optHarmonyType options) sz of
           Inl e \<Rightarrow> (Inl e, this)
         | Inr baseColors \<Rightarrow>
             let lightColors = generateOptimizedPalette this baseColors (whiteColor this)
                                 minContrastRatio;
                 darkColors = generateOptimizedPalette this baseColors (darkBgColor this)
                                minContrastRatio
             in if enabled (differentiationSettings options) then
                  (case applySimpleDifferentiation this lightColors (whiteColor this)
                          minContrastRatio (differentiationSettings options) of
                     Inl e \<Rightarrow> (Inl e, this)
                   | Inr lightColors' \<Rightarrow>
                       (case applySimpleDifferentiation this darkColors (darkBgColor this)
                               minContrastRatio (differentiationSettings options) of
                          Inl e \<Rightarrow> (Inl e, this)
                        | Inr darkColors' \<Rightarrow>
                            (Inr \<lparr>base = baseColors, lightOptimized = lightColors',
                                  darkOptimized = darkColors'\<rparr>, this)))
                else
                  (Inr \<lparr>base = baseColors, lightOptimized = lightColors,
                        darkOptimized = darkColors\<rparr>, this))"

section \<open>Predicates and sample values of the statements\<close>

text \<open>The channels of a colour lie in the range of an sRGB byte.\<close>

definition validChannels :: "color \<Rightarrow> bool" where
  "validChannels c =
     (0 \<le> rgb_r (rgb c) \<and> rgb_r (rgb c) \<le> 255 \<and> 0 \<le> rgb_g (rgb c) \<and> rgb_g (rgb c) \<le> 255
      \<and> 0 \<le> rgb_b (rgb c) \<and> rgb_b (rgb c) \<le> 255)"

text \<open>A colour has the hue and the saturation of the given HSL triple.\<close>

definition sameHueSat :: "hsl \<Rightarrow> color \<Rightarrow> bool" where
  "sameHueSat x c = (hsl_h (hsl c) = hsl_h x \<and> hsl_s (hsl c) = hsl_s x)"

text \<open>The object \<open>new ColorUtil('#000000')\<close>.\<close>

definition black :: color where
  "black = \<lparr>hex = ''#000000'', rgb = \<lparr>rgb_r = 0, rgb_g = 0, rgb_b = 0\<rparr>,
            hsl = rgbToHsl 0 0 0\<rparr>"

text \<open>The strings that \<open>new ColorUtil\<close> parses: \<open>#\<close> and six hexadecimal digits; and
  the object it builds from such a string.\<close>

definition wellFormedHex :: "string \<Rightarrow> bool" where
  "wellFormedHex str =
     (case str of
        c # body \<Rightarrow> c = CHR ''#'' \<and> length body = 6 \<and> list_all isHexDigit body
      | [] \<Rightarrow> False)"

definition parsedColor :: "string \<Rightarrow> color" where
  "parsedColor str =
     (let c = \<lparr>rgb_r = parseHexPair (take 2 (tl str)),
                rgb_g = parseHexPair (take 2 (drop 2 (tl str))),
                rgb_b = parseHexPair (take 2 (drop 4 (tl str)))\<rparr>
      in \<lparr>hex = str, rgb = c, hsl = rgbToHsl (rgb_r c) (rgb_g c) (rgb_b c)\<rparr>)"

text \<open>The defaults of \<open>generatePalette\<close>.\<close>

definition defaultOptions :: Options where
  "defaultOptions =
     \<lparr>paletteSize = 5, wcagLevel = AA, optHarmonyType = Triadic, baseColor = ''#5500AA'',
      differentiationSettings =
        \<lparr>enabled = True, minHueDifference = 15, minLuminanceDifference = 10\<rparr>\<rparr>"

text \<open>The numbers that JavaScript prints as plain decimals, on which \<open>parseInt\<close> of a
  number is truncation.\<close>

definition plainDecimal :: "real \<Rightarrow> bool" where
  "plainDecimal x = (x = 0 \<or> (1 / 10 ^ 6 \<le> \<bar>x\<bar> \<and> \<bar>x\<bar> < 10 ^ 21))"

text \<open>
  The monochromatic treatment in the words of the specification: the ladder of
  lightness values for the palette size, and the colour of slot \<open>i\<close>, whose hue is the
  hue of the first colour plus 5 degrees for every slot, whose saturation is at least
  40, and whose lightness is the ladder's, inverted on a dark background. The test for
  the path is the one of the code: every hue is less than 5 degrees away from the hue of
  the first colour.
\<close>

definition monoLadder :: "nat \<Rightarrow> real list" where
  "monoLadder n = (if n = 3 then [15, 50, 85] else [10, 30, 50, 70, 90])"

definition monoSlot :: "color list \<Rightarrow> bool \<Rightarrow> nat \<Rightarrow> color" where
  "monoSlot palette isLight i =
     fromHsl (jsmod (hsl_h (hsl (palette ! 0)) + 5 * real i) 360)
       (max 40 (hsl_s (hsl (palette ! i))))
       (if isLight then monoLadder (length palette) ! i
        else 100 - monoLadder (length palette) ! i)"

definition hueWithin5 :: "color list \<Rightarrow> bool" where
  "hueWithin5 palette =
     list_all (\<lambda>c. getCircularHueDistance (hsl_h (hsl c)) (hsl_h (hsl (palette ! 0))) < 5)
       palette"

text \<open>Sample inputs: a palette of three blacks, and the options with the base colour
  \<open>#000000\<close>, three slots and the triadic harmony.\<close>

definition blackPalette :: "color list" where
  "blackPalette = [black, black, black]"

definition blackOptions :: Options where
  "blackOptions = defaultOptions\<lparr>paletteSize := 3, baseColor := ''#000000''\<rparr>"

text \<open>The object \<open>new ColorUtil('#003399')\<close>, and the options with this base colour,
  three slots, the analogous harmony and level AAA.\<close>

definition navy :: color where
  "navy = \<lparr>hex = ''#003399'', rgb = \<lparr>rgb_r = 0, rgb_g = 51, rgb_b = 153\<rparr>,
           hsl = rgbToHsl 0 51 153\<rparr>"

definition navyOptions :: Options where
  "navyOptions = defaultOptions\<lparr>paletteSize := 3, wcagLevel := AAA,
     optHarmonyType := Analogous, baseColor := ''#003399''\<rparr>"

text \<open>A palette on the boundary of the monochromatic test: what the optimizer makes, on
  white and at level AA, of three colours of saturation 30 whose hues are 200, 205 and
  205.\<close>

definition boundaryBase :: "color list" where
  "boundaryBase = [fromHsl 200 30 20, fromHsl 205 30 20, fromHsl 205 30 20]"

definition boundaryPalette :: "color list" where
  "boundaryPalette = generateOptimizedPalette PaletteGenerator_new boundaryBase white 4.5"

section \<open>Luminance and contrast of colours with channels in range\<close>

lemma linearize_bounds:
  assumes "0 \<le> c" "c \<le> 255"
  shows "0 \<le> linearize c" "linearize c \<le> 1"
proof -
  let ?x = "c / 255"
  have x: "0 \<le> ?x" "?x \<le> 1" using assms by auto
  show "0 \<le> linearize c"
    using x by (simp add: linearize_def Let_def)
  have "((?x + 0.055) / 1.055) powr 2.4 \<le> 1"
    using x by (intro powr_le1) auto
  moreover have "?x / 12.92 \<le> 1" using x by simp
  ultimately show "linearize c \<le> 1"
    by (simp add: linearize_def Let_def)
qed

lemma getLuminance_bounds:
  assumes "validChannels c"
  shows "0 \<le> getLuminance c" "getLuminance c \<le> 1"
proof -
  have r: "0 \<le> linearize (rgb_r (rgb c))" "linearize (rgb_r (rgb c)) \<le> 1"
    and g: "0 \<le> linearize (rgb_g (rgb c))" "linearize (rgb_g (rgb c)) \<le> 1"
    and b: "0 \<le> linearize (rgb_b (rgb c))" "linearize (rgb_b (rgb c)) \<le> 1"
    using assms by (auto simp: validChannels_def intro: linearize_bounds)
  show "0 \<le> getLuminance c" using r g b by (simp add: getLuminance_def)
  show "getLuminance c \<le> 1" using r g b by (simp add: getLuminance_def)
qed

lemma getContrastRatio_sym: "getContrastRatio a b = getContrastRatio b a"
  by (simp add: getContrastRatio_def Let_def max.commute min.commute)

lemma contrast_bounds_aux:
  fixes x y :: real
  assumes "0 \<le> x" "x \<le> 1" "0 \<le> y" "y \<le> 1"
  shows "1 \<le> (max x y + 0.05) / (min x y + 0.05)" "(max x y + 0.05) / (min x y + 0.05) \<le> 21"
proof -
  have pos: "0 < min x y + 0.05" using assms by auto
  have "min x y + 0.05 \<le> max x y + 0.05" by auto
  then show "1 \<le> (max x y + 0.05) / (min x y + 0.05)" using pos by (simp add: le_divide_eq)
  have "max x y + 0.05 \<le> 21 * (min x y + 0.05)" using assms by auto
  then show "(max x y + 0.05) / (min x y + 0.05) \<le> 21" using pos by (simp add: divide_le_eq)
qed

lemma getContrastRatio_bounds:
  assumes "validChannels a" "validChannels b"
  shows "1 \<le> getContrastRatio a b" "getContrastRatio a b \<le> 21"
  using contrast_bounds_aux[OF getLuminance_bounds[OF assms(1)] getLuminance_bounds[OF assms(2)]]
  by (simp_all add: getContrastRatio_def Let_def)

lemma white_lum: "getLuminance white = 1"
  by (simp add: getLuminance_def white_def linearize_def)

lemma black_lum: "getLuminance black = 0"
  by (simp add: getLuminance_def black_def linearize_def)

lemma contrast_black_white: "getContrastRatio black white = 21"
  by (simp add: getContrastRatio_def black_lum white_lum)

lemma validChannels_black: "validChannels black"
  by (simp add: validChannels_def black_def)

lemma validChannels_white: "validChannels white"
  by (simp add: validChannels_def white_def)

subsection \<open>Both constructors build colours with channels in range\<close>

lemma hexDigitValue_le: "isHexDigit c \<Longrightarrow> hexDigitValue c \<le> 15"
  by (auto simp: isHexDigit_def hexDigitValue_def)

lemma parseHexPair_bounds:
  assumes "isHexDigit (p ! 0)" "isHexDigit (p ! 1)"
  shows "0 \<le> parseHexPair p" "parseHexPair p \<le> 255"
proof -
  have "16 * hexDigitValue (p ! 0) + hexDigitValue (p ! 1) \<le> 255"
    using hexDigitValue_le[OF assms(1)] hexDigitValue_le[OF assms(2)] by linarith
  then show "parseHexPair p \<le> 255" unfolding parseHexPair_def by linarith
  show "0 \<le> parseHexPair p" by (simp add: parseHexPair_def)
qed

lemma hexToRgb_bounds:
  assumes "hexToRgb hx = Some c"
  shows "0 \<le> rgb_r c \<and> rgb_r c \<le> 255 \<and> 0 \<le> rgb_g c \<and> rgb_g c \<le> 255
         \<and> 0 \<le> rgb_b c \<and> rgb_b c \<le> 255"
proof -
  define body where "body = (case hx of c # t \<Rightarrow> if c = CHR ''#'' then t else hx | [] \<Rightarrow> hx)"
  from assms have len: "length body = 6" and all: "list_all isHexDigit body"
    and c: "c = \<lparr>rgb_r = parseHexPair (take 2 body),
                 rgb_g = parseHexPair (take 2 (drop 2 body)),
                 rgb_b = parseHexPair (take 2 (drop 4 body))\<rparr>"
    by (auto simp: hexToRgb_def Let_def body_def[symmetric] split: if_splits)
  have d: "\<And>i. i < 6 \<Longrightarrow> isHexDigit (body ! i)"
    using all len by (simp add: list_all_length)
  have "isHexDigit (take 2 body ! 0)" "isHexDigit (take 2 body ! 1)"
       "isHexDigit (take 2 (drop 2 body) ! 0)" "isHexDigit (take 2 (drop 2 body) ! 1)"
       "isHexDigit (take 2 (drop 4 body) ! 0)" "isHexDigit (take 2 (drop 4 body) ! 1)"
    using d len by simp_all
  then show ?thesis
    unfolding c by (simp add: parseHexPair_bounds)
qed

lemma ColorUtil_new_valid: "ColorUtil_new str = Inr (Some c) \<Longrightarrow> validChannels c"
  using hexToRgb_bounds
  by (auto simp: ColorUtil_new_def validChannels_def split: if_splits option.splits)

lemma convex_unit:
  fixes p q u :: real
  assumes "0 \<le> p" "p \<le> 1" "0 \<le> q" "q \<le> 1" "0 \<le> u" "u \<le> 1"
  shows "0 \<le> p + (q - p) * u" "p + (q - p) * u \<le> 1"
proof -
  have eq: "p + (q - p) * u = p * (1 - u) + q * u" by algebra
  have "0 \<le> p * (1 - u)" "0 \<le> q * u" using assms by simp_all
  then have "0 \<le> p * (1 - u) + q * u" by (rule add_nonneg_nonneg)
  then show "0 \<le> p + (q - p) * u" by (simp only: eq)
  have A: "p * (1 - u) \<le> 1 - u" using mult_right_mono[of p 1 "1 - u"] assms by simp
  have B: "q * u \<le> u" using mult_right_mono[of q 1 u] assms by simp
  have "p * (1 - u) + q * u \<le> (1 - u) + u" using A B by (rule add_mono)
  then show "p + (q - p) * u \<le> 1" by (simp add: eq)
qed

lemma hue2rgb_bounds:
  assumes "0 \<le> p" "p \<le> 1" "0 \<le> q" "q \<le> 1" "- 1 \<le> t" "t \<le> 2"
  shows "0 \<le> hue2rgb p q t \<and> hue2rgb p q t \<le> 1"
proof -
  define t1 where "t1 = (if t < 0 then t + 1 else t)"
  define t2 where "t2 = (if t1 > 1 then t1 - 1 else t1)"
  have t2: "0 \<le> t2" "t2 \<le> 1" using assms by (auto simp: t1_def t2_def)
  have eq: "hue2rgb p q t =
      (if t2 < 1 / 6 then p + (q - p) * 6 * t2
       else if t2 < 1 / 2 then q
       else if t2 < 2 / 3 then p + (q - p) * (2 / 3 - t2) * 6
       else p)"
    unfolding hue2rgb_def Let_def t1_def t2_def by (rule refl)
  have r1: "p + (q - p) * 6 * t2 = p + (q - p) * (6 * t2)"
    and r2: "p + (q - p) * (2 / 3 - t2) * 6 = p + (q - p) * ((2 / 3 - t2) * 6)"
    by simp_all
  consider "t2 < 1 / 6" | "\<not> t2 < 1 / 6" "t2 < 1 / 2" | "\<not> t2 < 1 / 2" "t2 < 2 / 3"
    | "\<not> t2 < 2 / 3" by linarith
  then show ?thesis
  proof cases
    case 1
    then have u: "0 \<le> 6 * t2" "6 * t2 \<le> 1" using t2 by simp_all
    show ?thesis using 1 convex_unit[OF assms(1-4) u] by (simp only: eq r1 if_True)
  next
    case 2
    then show ?thesis using assms by (simp add: eq)
  next
    case 3
    then have u: "0 \<le> (2 / 3 - t2) * 6" "(2 / 3 - t2) * 6 \<le> 1" by simp_all
    have "\<not> t2 < 1 / 6" using 3 by simp
    then show ?thesis using 3 convex_unit[OF assms(1-4) u]
      by (simp only: eq r2 if_True if_False)
  next
    case 4
    then have "\<not> t2 < 1 / 6" "\<not> t2 < 1 / 2" by simp_all
    then show ?thesis using 4 assms by (simp add: eq)
  qed
qed

lemma pq_bounds:
  fixes l s :: real
  assumes "0 \<le> l" "l \<le> 1" "0 \<le> s" "s \<le> 1"
  defines "q \<equiv> (if l < 0.5 then l * (1 + s) else l + s - l * s)"
  shows "0 \<le> q" "q \<le> 1" "0 \<le> 2 * l - q" "2 * l - q \<le> 1"
proof -
  define m where "m = l * s"
  have m0: "0 \<le> m" unfolding m_def using assms(1,3) by simp
  have ml: "m \<le> l" unfolding m_def using mult_left_mono[of s 1 l] assms(1,4) by simp
  have ms: "m \<le> s" unfolding m_def using mult_right_mono[of l 1 s] assms(2,3) by simp
  have "0 \<le> (1 - l) * (1 - s)" using assms(2,4) by simp
  then have c: "l + s \<le> 1 + m" unfolding m_def by (simp add: algebra_simps)
  have "0 \<le> q \<and> q \<le> 1 \<and> 0 \<le> 2 * l - q \<and> 2 * l - q \<le> 1"
  proof (cases "l < 0.5")
    case True
    then have q: "q = l + m" by (simp add: q_def m_def algebra_simps)
    show ?thesis
      using True m0 ml ms assms(1-4) unfolding q by simp
  next
    case False
    then have q: "q = l + s - m" by (simp add: q_def m_def)
    have "1 / 2 * s \<le> l * s" using False assms(3) by (intro mult_right_mono) simp_all
    then have h: "s \<le> 2 * m" by (simp add: m_def)
    show ?thesis
      using False m0 ml ms c h assms(1-4) unfolding q by simp
  qed
  then show "0 \<le> q" "q \<le> 1" "0 \<le> 2 * l - q" "2 * l - q \<le> 1" by simp_all
qed

lemma hsl_fromHsl [simp]: "hsl (fromHsl h s l) = \<lparr>hsl_h = h, hsl_s = s, hsl_l = l\<rparr>"
  by (simp add: fromHsl_def Let_def)

lemma rgb_fromHsl [simp]: "rgb (fromHsl h s l) = hslToRgb h s l"
  by (simp add: fromHsl_def Let_def)

lemma fromHsl_valid:
  assumes "0 \<le> h" "h \<le> 360" "0 \<le> s" "s \<le> 100" "0 \<le> l" "l \<le> 100"
  shows "validChannels (fromHsl h s l)"
proof -
  define q where "q = (if l / 100 < 0.5 then l / 100 * (1 + s / 100) else l / 100 + s / 100 - l / 100 * (s / 100))"
  have l: "0 \<le> l / 100" "l / 100 \<le> 1" and s: "0 \<le> s / 100" "s / 100 \<le> 1"
    and h: "0 \<le> h / 360" "h / 360 \<le> 1"
    using assms by simp_all
  note pq = pq_bounds[OF l s, folded q_def]
  have a: "0 \<le> hue2rgb (2 * (l / 100) - q) q (h / 360 + 1 / 3) \<and> hue2rgb (2 * (l / 100) - q) q (h / 360 + 1 / 3) \<le> 1"
    using h by (intro hue2rgb_bounds pq) auto
  have b: "0 \<le> hue2rgb (2 * (l / 100) - q) q (h / 360) \<and> hue2rgb (2 * (l / 100) - q) q (h / 360) \<le> 1"
    using h by (intro hue2rgb_bounds pq) auto
  have c: "0 \<le> hue2rgb (2 * (l / 100) - q) q (h / 360 - 1 / 3) \<and> hue2rgb (2 * (l / 100) - q) q (h / 360 - 1 / 3) \<le> 1"
    using h by (intro hue2rgb_bounds pq) auto
  show ?thesis
  proof (cases "s / 100 = 0")
    case True
    then show ?thesis using l by (simp add: validChannels_def hslToRgb_def Let_def)
  next
    case False
    then show ?thesis
      using a b c unfolding validChannels_def rgb_fromHsl hslToRgb_def Let_def q_def
      by simp
  qed
qed

subsection \<open>The reference colours and some parses\<close>

lemmas parse_defs = ColorUtil_new_def startsWithHash_def hexToRgb_def isHexDigit_def
  parseHexPair_def hexDigitValue_def

lemma reference_colors:
  "ColorUtil_new ''#ffffff'' = Inr (Some white)"
  "ColorUtil_new ''#2c3e50'' = Inr (Some darkBg)"
  by (simp_all add: parse_defs white_def darkBg_def)

lemma ColorUtil_new_black: "ColorUtil_new ''#000000'' = Inr (Some black)"
  by (simp add: parse_defs black_def)

section \<open>The optimizer changes lightness only\<close>

lemma length_mapIndexed [simp]: "length (mapIndexed f xs) = length xs"
  by (simp add: mapIndexed_def)

lemma nth_mapIndexed [simp]: "i < length xs \<Longrightarrow> mapIndexed f xs ! i = f i (xs ! i)"
  by (simp add: mapIndexed_def)

lemma sameHueSat_fromHsl [simp]: "sameHueSat x (fromHsl (hsl_h x) (hsl_s x) l)"
  by (simp add: sameHueSat_def)

lemma scanRange_sameHueSat:
  "sameHueSat x best \<Longrightarrow>
   (case scanRange x bg t u l hi best bc of Returned c \<Rightarrow> sameHueSat x c
      | Exhausted c \<Rightarrow> sameHueSat x c)"
proof (induction x bg t u l hi best bc rule: scanRange.induct)
  case (1 x bg t u l hi best bc)
  show ?case
  proof (cases "l \<le> hi")
    case False
    then show ?thesis using "1.prems" by (subst scanRange.simps) simp
  next
    case True
    then show ?thesis
      using "1.IH" "1.prems"
      by (subst scanRange.simps) (simp add: Let_def)
  qed
qed

lemma expandedLoop_sameHueSat:
  "sameHueSat x best \<Longrightarrow> sameHueSat x (expandedLoop n x bg t d tgt best bc)"
  by (induction n x bg t d tgt best bc rule: expandedLoop.induct) (simp_all add: Let_def)

lemma expandedColorSearch_sameHueSat:
  "sameHueSat x best \<Longrightarrow> sameHueSat x (expandedColorSearch x bg t isL rng best)"
  by (simp add: expandedColorSearch_def Let_def expandedLoop_sameHueSat)

lemma findOptimalColor_sameHueSat:
  "sameHueSat (hsl c) (findOptimalColor this c bg t u i n)"
proof -
  define rng where
    "rng = getTargetLightnessRange (isLightBackground bg) i n (harmonyType this)"
  define sc where
    "sc = scanRange (hsl c) bg t u (fst rng) (snd rng) c (getContrastRatio c bg)"
  have c: "sameHueSat (hsl c) c" by (simp add: sameHueSat_def)
  have sc: "case sc of Returned x \<Rightarrow> sameHueSat (hsl c) x | Exhausted x \<Rightarrow> sameHueSat (hsl c) x"
    unfolding sc_def by (rule scanRange_sameHueSat[OF c])
  have eq: "findOptimalColor this c bg t u i n =
      (case sc of Returned x \<Rightarrow> x
       | Exhausted x \<Rightarrow> expandedColorSearch (hsl c) bg t (isLightBackground bg) rng x)"
    unfolding findOptimalColor_def Let_def sc_def rng_def by (rule refl)
  show ?thesis
    unfolding eq using sc
    by (cases sc) (simp_all add: expandedColorSearch_sameHueSat)
qed

lemma optimizeColorForBackground_sameHueSat:
  "sameHueSat (hsl c) (optimizeColorForBackground this c bg t i n)"
  using findOptimalColor_sameHueSat
  by (simp add: optimizeColorForBackground_def Let_def sameHueSat_def)

section \<open>The base palette and the whole generation\<close>

lemma ColorUtil_new_wellFormed:
  "wellFormedHex str \<Longrightarrow> ColorUtil_new str = Inr (Some (parsedColor str))"
  by (cases str)
     (simp_all add: wellFormedHex_def ColorUtil_new_def startsWithHash_def hexToRgb_def
        parsedColor_def Let_def)

lemma ColorUtil_new_malformed:
  assumes "\<not> wellFormedHex str"
  shows "ColorUtil_new str = Inl TypeError \<or> ColorUtil_new str = Inr None"
proof (cases str)
  case Nil
  then show ?thesis by (simp add: ColorUtil_new_def startsWithHash_def)
next
  case (Cons c body)
  show ?thesis
  proof (cases "c = CHR ''#''")
    case False
    then show ?thesis using Cons by (simp add: ColorUtil_new_def startsWithHash_def)
  next
    case True
    then have "\<not> (length body = 6 \<and> list_all isHexDigit body)"
      using assms Cons by (simp add: wellFormedHex_def)
    then have "hexToRgb str = None"
      using Cons True by (simp add: hexToRgb_def)
    then show ?thesis using Cons True by (simp add: ColorUtil_new_def startsWithHash_def)
  qed
qed

lemma colorHarmonies_nonempty [simp]: "colorHarmonies hType hue \<noteq> []"
  by (cases hType) (simp_all add: colorHarmonies_def)

lemma generateColorFromHarmony_ok:
  assumes "harmonyHues \<noteq> []"
  shows "\<exists>c. generateColorFromHarmony col harmonyHues hType i sz = Inr c"
  using assms
  by (cases "hType = Monochromatic")
     (simp_all add: generateColorFromHarmony_def Let_def split del: if_split)

lemma baseColorsLoop_ok:
  assumes "ColorUtil_new str = Inr (Some c0)" "harmonyHues \<noteq> []"
  shows "\<exists>cs. baseColorsLoop str col harmonyHues hType sz i acc = Inr (acc @ cs)
            \<and> length cs = sz - i \<and> (i = 0 \<and> 0 < sz \<longrightarrow> hd cs = c0)"
  using assms
proof (induction str col harmonyHues hType sz i acc rule: baseColorsLoop.induct)
  case (1 str color harmonyHues hType sz i colors)
  show ?case
  proof (cases "i < sz")
    case False
    then show ?thesis by (subst baseColorsLoop.simps) auto
  next
    case True
    define g where "g = (if i = 0 then c0
                         else projr (generateColorFromHarmony color harmonyHues hType i sz))"
    have step: "(if i = 0 then
                 (case ColorUtil_new str of
                    Inl e \<Rightarrow> Inl e
                  | Inr None \<Rightarrow> Inl TypeError
                  | Inr (Some c) \<Rightarrow> Inr c)
               else generateColorFromHarmony color harmonyHues hType i sz) = Inr g"
      using "1.prems" generateColorFromHarmony_ok[OF "1.prems"(2), of color hType i sz]
      by (auto simp: g_def)
    from "1.IH"[OF True step "1.prems"]
    obtain cs where cs: "baseColorsLoop str color harmonyHues hType sz (i + 1) (colors @ [g])
        = Inr ((colors @ [g]) @ cs)" "length cs = sz - (i + 1)"
      by blast
    have "baseColorsLoop str color harmonyHues hType sz i colors = Inr (colors @ (g # cs))"
      using True step cs(1) by (subst baseColorsLoop.simps) simp
    moreover have "length (g # cs) = sz - i" using cs(2) True by simp
    moreover have "i = 0 \<and> 0 < sz \<longrightarrow> hd (g # cs) = c0" by (simp add: g_def)
    ultimately show ?thesis by blast
  qed
qed

lemma baseColorsLoop_raises:
  "ColorUtil_new str = Inl e \<Longrightarrow> 0 < sz \<Longrightarrow>
   baseColorsLoop str col harmonyHues hType sz 0 [] = Inl e"
  by (subst baseColorsLoop.simps) simp

lemma ColorUtil_new_default: "\<exists>c. ColorUtil_new ''#5500AA'' = Inr (Some c)"
  by (simp add: parse_defs)

lemma generateBaseColors_wellFormed:
  assumes "wellFormedHex str" "0 < sz"
  shows "\<exists>rest. generateBaseColors str hType sz = Inr (parsedColor str # rest)
            \<and> length rest = sz - 1"
proof -
  have p: "ColorUtil_new str = Inr (Some (parsedColor str))"
    using assms(1) by (rule ColorUtil_new_wellFormed)
  obtain cs where cs: "baseColorsLoop str (parsedColor str)
        (colorHarmonies hType (hsl_h (hsl (parsedColor str)))) hType sz 0 [] = Inr ([] @ cs)"
     "length cs = sz - 0" "0 = (0::nat) \<and> 0 < sz \<longrightarrow> hd cs = parsedColor str"
    using baseColorsLoop_ok[OF p colorHarmonies_nonempty] by blast
  then have "cs = parsedColor str # tl cs" using assms(2) by (cases cs) simp_all
  moreover have "length (tl cs) = sz - 1" using cs(2) by simp
  ultimately show ?thesis using cs(1) p
    by (auto simp: generateBaseColors_def Let_def)
qed

lemma generateBaseColors_malformed:
  assumes "\<not> wellFormedHex str" "0 < sz"
  shows "generateBaseColors str hType sz = Inl TypeError"
proof -
  from ColorUtil_new_malformed[OF assms(1)] show ?thesis
  proof
    assume e: "ColorUtil_new str = Inl TypeError"
    obtain d where d: "ColorUtil_new ''#5500AA'' = Inr (Some d)"
      using ColorUtil_new_default by blast
    show ?thesis
      using e d baseColorsLoop_raises[OF e assms(2)]
      by (simp add: generateBaseColors_def Let_def)
  next
    assume "ColorUtil_new str = Inr None"
    then show ?thesis by (simp add: generateBaseColors_def)
  qed
qed

lemma validateSize_cases: "validateSize x = 3 \<or> validateSize x = 5"
  by (auto simp: validateSize_def Let_def)

lemma validateSize_pos: "0 < validateSize x"
  using validateSize_cases[of x] by auto

lemma length_adjustSaturationPair [simp]:
  "length (adjustSaturationPair m pr p) = length p"
  by (simp add: adjustSaturationPair_def Let_def)

lemma length_adjustHuePair [simp]:
  "length (adjustHuePair bg m mx pr p) = length p"
  by (simp add: adjustHuePair_def Let_def split: option.splits)

lemma length_fold_step:
  "(\<And>pr p. length (f pr p) = length p) \<Longrightarrow> length (fold f prs p) = length p"
  by (induction prs arbitrary: p) simp_all

lemma length_adjustSaturationForDifferentiation [simp]:
  "length (adjustSaturationForDifferentiation p m) = length p"
  by (simp add: adjustSaturationForDifferentiation_def length_fold_step)

lemma length_applyMinimalHueAdjustments [simp]:
  "length (applyMinimalHueAdjustments p bg m mx) = length p"
  by (simp add: applyMinimalHueAdjustments_def length_fold_step)

lemma length_distributeColorsOptimally [simp]:
  "length (distributeColorsOptimally p bg m d) = length p"
  by (simp add: distributeColorsOptimally_def Let_def)

lemma length_ensureMinimumContrast [simp]:
  "length (ensureMinimumContrast this p bg m) = length p"
  by (simp add: ensureMinimumContrast_def)

lemma length_generateOptimizedPalette [simp]:
  "length (generateOptimizedPalette this p bg m) = length p"
  by (simp add: generateOptimizedPalette_def)

lemma enhanceMonochromaticDifferentiation_ok:
  assumes "p \<noteq> []" "length p \<le> 5"
  shows "\<exists>r. enhanceMonochromaticDifferentiation this p bg m = Inr r \<and> length r = length p"
proof -
  obtain c cs where p: "p = c # cs" using assms(1) by (cases p) auto
  have "\<not> length p > length (if length p = 3 then [15, 50, 85] else [10, 30, 50, 70, 90 :: real])"
    using assms(2) by simp
  then show ?thesis
    unfolding enhanceMonochromaticDifferentiation_def Let_def p
    by (simp split del: if_split)
qed

lemma applySimpleDifferentiation_ok:
  assumes "p \<noteq> []" "length p \<le> 5"
  shows "\<exists>r. applySimpleDifferentiation this p bg m ds = Inr r \<and> length r = length p"
  using enhanceMonochromaticDifferentiation_ok[OF assms]
  by (simp add: applySimpleDifferentiation_def Let_def)

lemma snd_generatePalette:
  "snd (generatePalette this options) = this\<lparr>harmonyType := optHarmonyType options\<rparr>"
  by (simp add: generatePalette_def Let_def split: sum.splits)

lemma generatePalette_state_independent:
  "generatePalette (this\<lparr>harmonyType := t\<rparr>) options = generatePalette this options"
  by (simp add: generatePalette_def)

lemma generatePalette_malformed:
  "\<not> wellFormedHex (baseColor options) \<Longrightarrow> fst (generatePalette this options) = Inl TypeError"
  by (simp add: generatePalette_def Let_def generateBaseColors_malformed validateSize_pos)

lemma generatePalette_wellFormed:
  assumes "wellFormedHex (baseColor options)"
  shows "\<exists>res. fst (generatePalette this options) = Inr res
           \<and> base res ! 0 = parsedColor (baseColor options)
           \<and> length (base res) = validateSize (paletteSize options)
           \<and> length (lightOptimized res) = validateSize (paletteSize options)
           \<and> length (darkOptimized res) = validateSize (paletteSize options)"
proof -
  define sz where "sz = validateSize (paletteSize options)"
  define this' where "this' = this\<lparr>harmonyType := optHarmonyType options\<rparr>"
  define m where "m = (if wcagLevel options = AAA then 7 else 4.5 :: real)"
  have sz: "0 < sz" "sz \<le> 5" using validateSize_cases[of "paletteSize options"]
    by (auto simp: sz_def)
  obtain rest where b: "generateBaseColors (baseColor options) (optHarmonyType options) sz
      = Inr (parsedColor (baseColor options) # rest)" and lr: "length rest = sz - 1"
    using generateBaseColors_wellFormed[OF assms sz(1)] by blast
  define bs where "bs = parsedColor (baseColor options) # rest"
  have lb: "length bs = sz" using lr sz by (simp add: bs_def)
  define lc where "lc = generateOptimizedPalette this' bs (whiteColor this') m"
  define dc where "dc = generateOptimizedPalette this' bs (darkBgColor this') m"
  have ll0: "length lc = sz" and ld0: "length dc = sz"
    using lb by (simp_all add: lc_def dc_def)
  have ll: "lc \<noteq> []" "length lc \<le> 5" "length lc = sz"
    and ld: "dc \<noteq> []" "length dc \<le> 5" "length dc = sz"
    using ll0 ld0 sz by auto
  obtain lc' where lc': "applySimpleDifferentiation this' lc (whiteColor this') m
       (differentiationSettings options) = Inr lc'" "length lc' = length lc"
    using applySimpleDifferentiation_ok[OF ll(1,2)] by blast
  obtain dc' where dc': "applySimpleDifferentiation this' dc (darkBgColor this') m
       (differentiationSettings options) = Inr dc'" "length dc' = length dc"
    using applySimpleDifferentiation_ok[OF ld(1,2)] by blast
  have "fst (generatePalette this options) =
      (if enabled (differentiationSettings options)
       then Inr \<lparr>base = bs, lightOptimized = lc', darkOptimized = dc'\<rparr>
       else Inr \<lparr>base = bs, lightOptimized = lc, darkOptimized = dc\<rparr>)"
    using b lc' dc'
    by (simp add: generatePalette_def Let_def sz_def[symmetric] this'_def[symmetric]
          m_def[symmetric] bs_def[symmetric] lc_def[symmetric] dc_def[symmetric])
  then show ?thesis
    using lb ll ld lc'(2) dc'(2) by (auto simp: bs_def sz_def)
qed

lemma trunc_eq_3: "trunc x = 3 \<longleftrightarrow> 3 \<le> x \<and> x < 4"
  by (auto simp: trunc_def floor_eq_iff ceiling_eq_iff)

lemma validateSize_eq: "validateSize x = (if 3 \<le> x \<and> x < 4 then 3 else 5)"
  using trunc_eq_3[of x] by (auto simp: validateSize_def parseInt_def Let_def)

section \<open>The differentiation pass\<close>

subsection \<open>The two backgrounds\<close>

lemma powr_24_le_sq:
  fixes x :: real
  assumes "0 \<le> x" "x \<le> 1"
  shows "x powr 2.4 \<le> x\<^sup>2"
proof -
  have "x powr 2.4 \<le> x powr 2" using assms by (intro powr_mono') simp_all
  then show ?thesis using assms by simp
qed


lemma isLightBackground_white: "isLightBackground white"
  by (simp add: isLightBackground_def white_lum)

lemma linearize_44: "linearize 44 \<le> 0.05"
proof -
  have "linearize 44 = ((44 / 255 + 0.055) / 1.055) powr 2.4"
    by (simp add: linearize_def Let_def)
  also have "\<dots> \<le> ((44 / 255 + 0.055) / 1.055)\<^sup>2" by (intro powr_24_le_sq) simp_all
  also have "\<dots> \<le> 0.05" by (simp add: power2_eq_square)
  finally show ?thesis .
qed

lemma linearize_62: "linearize 62 \<le> 0.08"
proof -
  have "linearize 62 = ((62 / 255 + 0.055) / 1.055) powr 2.4"
    by (simp add: linearize_def Let_def)
  also have "\<dots> \<le> ((62 / 255 + 0.055) / 1.055)\<^sup>2" by (intro powr_24_le_sq) simp_all
  also have "\<dots> \<le> 0.08" by (simp add: power2_eq_square)
  finally show ?thesis .
qed

lemma linearize_80: "linearize 80 \<le> 0.13"
proof -
  have "linearize 80 = ((80 / 255 + 0.055) / 1.055) powr 2.4"
    by (simp add: linearize_def Let_def)
  also have "\<dots> \<le> ((80 / 255 + 0.055) / 1.055)\<^sup>2" by (intro powr_24_le_sq) simp_all
  also have "\<dots> \<le> 0.13" by (simp add: power2_eq_square)
  finally show ?thesis .
qed

lemma not_isLightBackground_darkBg: "\<not> isLightBackground darkBg"
  using linearize_44 linearize_62 linearize_80
  by (simp add: isLightBackground_def getLuminance_def darkBg_def)

subsection \<open>The monochromatic path\<close>

lemma hd_nth0: "p \<noteq> [] \<Longrightarrow> hd p = p ! 0"
  by (cases p) simp_all

lemma ensureMinimumContrast_nth:
  "i < length p \<Longrightarrow>
   ensureMinimumContrast this p bg m ! i =
     (if getContrastRatio (p ! i) bg < m
      then findOptimalColor this (p ! i) bg m (m * 1.5) i (length p) else p ! i)"
  by (simp add: ensureMinimumContrast_def Let_def)

lemma enhanceMonochromaticDifferentiation_eq:
  assumes "length p = 3 \<or> length p = 5"
  shows "enhanceMonochromaticDifferentiation this p bg m =
           Inr (ensureMinimumContrast this
                  (mapIndexed (\<lambda>i c. monoSlot p (isLightBackground bg) i) p) bg m)"
proof -
  obtain c cs where p: "p = c # cs" using assms by (cases p) auto
  have len: "\<not> length p > length (monoLadder (length p))"
    using assms by (auto simp: monoLadder_def)
  have m: "mapIndexed (\<lambda>i color.
             fromHsl (jsmod (hsl_h (hsl c) + real i * 5) 360) (max 40 (hsl_s (hsl color)))
               (if isLightBackground bg then monoLadder (length p) ! i
                else 100 - monoLadder (length p) ! i)) p
           = mapIndexed (\<lambda>i c. monoSlot p (isLightBackground bg) i) p"
    by (rule nth_equalityI) (simp_all add: monoSlot_def p mult.commute)
  show ?thesis
    using len m
    unfolding enhanceMonochromaticDifferentiation_def Let_def monoLadder_def[symmetric]
    by (simp add: p split del: if_split)
qed

subsection \<open>Slot 0 on the general path\<close>

lemma similarSaturationPairs_snd: "pr \<in> set (similarSaturationPairs p m) \<Longrightarrow> snd pr \<noteq> 0"
  by (auto simp: similarSaturationPairs_def)

lemma veryClosePairs_snd: "pr \<in> set (veryClosePairs p) \<Longrightarrow> snd pr \<noteq> 0"
  by (auto simp: veryClosePairs_def)

lemma adjustSaturationPair_nth0: "snd pr \<noteq> 0 \<Longrightarrow> adjustSaturationPair m pr p ! 0 = p ! 0"
  by (simp add: adjustSaturationPair_def Let_def)

lemma adjustHuePair_nth0: "snd pr \<noteq> 0 \<Longrightarrow> adjustHuePair bg m mx pr p ! 0 = p ! 0"
  by (simp add: adjustHuePair_def Let_def split: option.splits)

lemma fold_nth0:
  assumes "\<And>pr p. snd pr \<noteq> 0 \<Longrightarrow> f pr p ! 0 = p ! (0::nat)"
    and "\<And>pr. pr \<in> set prs \<Longrightarrow> snd pr \<noteq> 0"
  shows "fold f prs p ! 0 = p ! 0"
  using assms(2) by (induction prs arbitrary: p) (simp_all add: assms(1))

lemma adjustSaturationForDifferentiation_nth0:
  "adjustSaturationForDifferentiation p m ! 0 = p ! 0"
  unfolding adjustSaturationForDifferentiation_def
  by (rule fold_nth0) (simp_all add: adjustSaturationPair_nth0 similarSaturationPairs_snd)

lemma applyMinimalHueAdjustments_nth0:
  "applyMinimalHueAdjustments p bg m mx ! 0 = p ! 0"
  unfolding applyMinimalHueAdjustments_def
  by (rule fold_nth0) (simp_all add: adjustHuePair_nth0 veryClosePairs_snd)

lemma distributeColorsOptimally_nth0:
  assumes "p \<noteq> []"
  shows "distributeColorsOptimally p bg m d ! 0 =
           adjustColorToTargetLightness (p ! 0) bg m
             (getOptimalLightnessDistribution (length p) (isLightBackground bg) ! 0)"
proof -
  have "nthOpt (getOptimalLightnessDistribution (length p) (isLightBackground bg)) (int 0)
      = Some (getOptimalLightnessDistribution (length p) (isLightBackground bg) ! 0)"
    by (simp add: nthOpt_def getOptimalLightnessDistribution_def)
  then show ?thesis
    using assms by (simp add: distributeColorsOptimally_def Let_def)
qed

lemma applySimpleDifferentiation_general_nth0:
  assumes "\<not> hueWithin5 p" "p \<noteq> []"
  shows "\<exists>r. applySimpleDifferentiation this p bg m ds = Inr r \<and> length r = length p
           \<and> r ! 0 = adjustColorToTargetLightness (p ! 0) bg m
                 (getOptimalLightnessDistribution (length p) (isLightBackground bg) ! 0)"
proof -
  have "\<not> list_all (\<lambda>c. getCircularHueDistance (hsl_h (hsl c)) (hsl_h (hsl (hd p))) < 5) p"
    using assms by (simp add: hueWithin5_def hd_nth0)
  then show ?thesis
    using assms(2)
    by (simp add: applySimpleDifferentiation_def Let_def applyMinimalHueAdjustments_nth0
          adjustSaturationForDifferentiation_nth0 distributeColorsOptimally_nth0)
qed

lemma hsl_black: "hsl black = \<lparr>hsl_h = 0, hsl_s = 0, hsl_l = 0\<rparr>"
  by (simp add: black_def rgbToHsl_def)

lemma jsmod_small:
  assumes "0 \<le> x" "x < y"
  shows "jsmod x y = x"
proof -
  have "0 \<le> x / y" "x / y < 1" using assms by simp_all
  then have "\<lfloor>x / y\<rfloor> = 0" by (simp add: floor_eq_iff)
  then show ?thesis using assms by (simp add: jsmod_def trunc_def)
qed

lemma hueDistance_120_0: "getCircularHueDistance 120 0 = 120"
  by (simp add: getCircularHueDistance_def Let_def jsmod_def trunc_def)

lemma powr_le_sq:
  fixes x a :: real
  assumes "0 \<le> x" "x \<le> 1" "2 \<le> a"
  shows "x powr a \<le> x\<^sup>2"
proof -
  have "x powr a \<le> x powr 2" using assms by (intro powr_mono') simp_all
  then show ?thesis using assms by simp
qed

lemma lum_dark_grey: "getLuminance (fromHsl 0 0 15) = (41 / 211) powr (12 / 5)"
  by (simp add: getLuminance_def hslToRgb_def linearize_def Let_def)

lemma lum_dark_grey_pos: "0 < getLuminance (fromHsl 0 0 15)"
  by (simp add: lum_dark_grey)

lemma lum_dark_grey_le: "getLuminance (fromHsl 0 0 15) \<le> 0.04"
proof -
  have "(41 / 211 :: real) powr (12 / 5) \<le> (41 / 211)\<^sup>2"
    by (intro powr_le_sq) simp_all
  also have "\<dots> \<le> 0.04" by (simp add: power2_eq_square)
  finally show ?thesis by (simp only: lum_dark_grey)
qed

lemma contrast_dark_grey:
  "4.5 \<le> getContrastRatio (fromHsl 0 0 15) white"
  "getContrastRatio (fromHsl 0 0 15) white < 21"
proof -
  define L where "L = getLuminance (fromHsl 0 0 15)"
  have L: "0 < L" "L \<le> 0.04" using lum_dark_grey_pos lum_dark_grey_le by (simp_all add: L_def)
  have c: "getContrastRatio (fromHsl 0 0 15) white = 1.05 / (L + 0.05)"
    using L by (simp add: getContrastRatio_def Let_def white_lum L_def[symmetric] max_def min_def)
  show "4.5 \<le> getContrastRatio (fromHsl 0 0 15) white"
    unfolding c using L by (simp add: le_divide_eq)
  show "getContrastRatio (fromHsl 0 0 15) white < 21"
    unfolding c using L by (simp add: divide_less_eq)
qed

lemma adjust_black:
  "m \<le> 4.5 \<Longrightarrow> adjustColorToTargetLightness black white m 15 = fromHsl 0 0 15"
  using contrast_dark_grey(1)
  by (simp add: adjustColorToTargetLightness_def Let_def hsl_black)

lemma baseColorsLoop_first:
  "0 < sz \<Longrightarrow> ColorUtil_new str = Inr (Some c) \<Longrightarrow>
   baseColorsLoop str col hs t sz 0 [] = baseColorsLoop str col hs t sz (Suc 0) [c]"
  by (subst baseColorsLoop.simps) simp

lemma baseColorsLoop_next:
  "i < sz \<Longrightarrow> i \<noteq> 0 \<Longrightarrow> generateColorFromHarmony col hs t i sz = Inr g \<Longrightarrow>
   baseColorsLoop str col hs t sz i cs = baseColorsLoop str col hs t sz (Suc i) (cs @ [g])"
  by (subst baseColorsLoop.simps) simp

lemma baseColorsLoop_done:
  "\<not> i < sz \<Longrightarrow> baseColorsLoop str col hs t sz i cs = Inr cs"
  by (subst baseColorsLoop.simps) simp

lemma base_black:
  "generateBaseColors ''#000000'' Triadic 3 = Inr [black, fromHsl 120 75 50, fromHsl 240 60 35]"
proof -
  have h: "colorHarmonies Triadic 0 = [0, 120, 240]"
    by (simp add: colorHarmonies_def jsmod_small)
  have g1: "generateColorFromHarmony black [0, 120, 240] Triadic (Suc 0) 3
              = Inr (fromHsl 120 75 50)"
    by (simp add: generateColorFromHarmony_def Let_def nthOr_def nthOpt_def)
  have g2: "generateColorFromHarmony black [0, 120, 240] Triadic (Suc (Suc 0)) 3
              = Inr (fromHsl 240 60 35)"
    by (simp add: generateColorFromHarmony_def Let_def nthOr_def nthOpt_def)
  have "baseColorsLoop ''#000000'' black [0, 120, 240] Triadic 3 0 []
      = baseColorsLoop ''#000000'' black [0, 120, 240] Triadic 3 (Suc 0) [black]"
    by (rule baseColorsLoop_first) (simp_all add: ColorUtil_new_black)
  also have "\<dots> = baseColorsLoop ''#000000'' black [0, 120, 240] Triadic 3 (Suc (Suc 0))
                      ([black] @ [fromHsl 120 75 50])"
    by (rule baseColorsLoop_next) (simp_all add: g1)
  also have "\<dots> = baseColorsLoop ''#000000'' black [0, 120, 240] Triadic 3 (Suc (Suc (Suc 0)))
                      (([black] @ [fromHsl 120 75 50]) @ [fromHsl 240 60 35])"
    by (rule baseColorsLoop_next) (simp_all add: g2)
  also have "\<dots> = Inr (([black] @ [fromHsl 120 75 50]) @ [fromHsl 240 60 35])"
    by (rule baseColorsLoop_done) simp
  finally show ?thesis
    by (simp add: generateBaseColors_def ColorUtil_new_black Let_def hsl_black h)
qed

lemma generatePalette_enabled:
  assumes "this' = this\<lparr>harmonyType := optHarmonyType options\<rparr>"
    and "m = (if wcagLevel options = AAA then 7 else 4.5)"
    and "generateBaseColors (baseColor options) (optHarmonyType options)
             (validateSize (paletteSize options)) = Inr bs"
    and "enabled (differentiationSettings options)"
    and "applySimpleDifferentiation this' (generateOptimizedPalette this' bs (whiteColor this') m)
           (whiteColor this') m (differentiationSettings options) = Inr lc"
    and "applySimpleDifferentiation this' (generateOptimizedPalette this' bs (darkBgColor this') m)
           (darkBgColor this') m (differentiationSettings options) = Inr dc"
  shows "fst (generatePalette this options)
           = Inr \<lparr>base = bs, lightOptimized = lc, darkOptimized = dc\<rparr>"
  using assms(3-6) unfolding assms(1,2) by (simp add: generatePalette_def Let_def)

lemma optimize_black:
  "t \<le> 21 \<Longrightarrow> optimizeColorForBackground this black white t i n = black"
  by (simp add: optimizeColorForBackground_def Let_def contrast_black_white)

lemma generateOptimizedPalette_sameHueSat:
  "i < length bs \<Longrightarrow> sameHueSat (hsl (bs ! i)) (generateOptimizedPalette this bs bg m ! i)"
  by (simp add: generateOptimizedPalette_def optimizeColorForBackground_sameHueSat)

lemma hex_dark_grey: "hex (fromHsl 0 0 15) = ''#262626''"
  by (simp add: fromHsl_def hslToRgb_def rgbToHex_def shl32_def Math_round_def toString16_def
        natToString16.simps hexDigitChar_def)

subsection \<open>Where the constructor's results lead in generateBaseColors\<close>

lemma generateBaseColors_cases:
  "generateBaseColors str hType sz =
     (case ColorUtil_new str of
        Inl e \<Rightarrow> (if 0 < sz then Inl e else Inr [])
      | Inr None \<Rightarrow> Inl TypeError
      | Inr (Some c) \<Rightarrow>
          baseColorsLoop str c (colorHarmonies hType (hsl_h (hsl c))) hType sz 0 [])"
proof (cases "ColorUtil_new str")
  case (Inl e)
  obtain d where d: "ColorUtil_new ''#5500AA'' = Inr (Some d)"
    using ColorUtil_new_default by blast
  show ?thesis
  proof (cases "0 < sz")
    case True
    then show ?thesis
      using Inl d baseColorsLoop_raises[OF Inl True]
      by (simp add: generateBaseColors_def Let_def)
  next
    case False
    then show ?thesis
      using Inl d by (simp add: generateBaseColors_def Let_def baseColorsLoop_done)
  qed
next
  case (Inr obj)
  then show ?thesis by (cases obj) (simp_all add: generateBaseColors_def Let_def)
qed

subsection \<open>What stages 1 and 3 check\<close>

text \<open>Stage 1 and stage 3 leave a slot as it is or give it a colour whose contrast
  reaches \<open>minContrastRatio\<close>; they do not compare with the contrast the slot had.
  Stage 2 computes no contrast.\<close>

lemma adjustLoop_compliant:
  "adjustLoop x bg m tgt dir a = Some c \<Longrightarrow> m \<le> getContrastRatio c bg"
proof (induction x bg m tgt dir a rule: adjustLoop.induct)
  case (1 x bg m tgt dir a)
  from "1.prems" show ?case
    by (subst (asm) adjustLoop.simps) (auto simp: Let_def split: if_splits dest: "1.IH"[rotated -1])
qed

lemma adjustColorToTargetLightness_guard:
  "adjustColorToTargetLightness c bg m tgt = c
   \<or> m \<le> getContrastRatio (adjustColorToTargetLightness c bg m tgt) bg"
  by (auto simp: adjustColorToTargetLightness_def Let_def split: option.splits
        dest: adjustLoop_compliant)

lemma distributeColorsOptimally_guard:
  assumes "i < length p"
  shows "distributeColorsOptimally p bg m d ! i = p ! i
         \<or> m \<le> getContrastRatio (distributeColorsOptimally p bg m d ! i) bg"
  using assms adjustColorToTargetLightness_guard
  by (auto simp: distributeColorsOptimally_def Let_def split: option.splits)

lemma tryDirections_compliant:
  "tryDirections ds x bg m mx = Some c \<Longrightarrow> m \<le> getContrastRatio c bg"
  by (induction ds) (auto simp: Let_def split: if_splits)

lemma adjustHuePair_guard:
  assumes "i < length p" "p ! i = q ! i \<or> m \<le> getContrastRatio (p ! i) bg"
  shows "adjustHuePair bg m mx pr p ! i = q ! i
         \<or> m \<le> getContrastRatio (adjustHuePair bg m mx pr p ! i) bg"
proof (cases "tryDirections [1, - 1] (hsl (p ! snd pr)) bg m mx")
  case None
  then have "adjustHuePair bg m mx pr p = p" by (simp add: adjustHuePair_def Let_def)
  then show ?thesis using assms(2) by simp
next
  case (Some c)
  then have eq: "adjustHuePair bg m mx pr p = p[snd pr := c]"
    by (simp add: adjustHuePair_def Let_def)
  have c: "m \<le> getContrastRatio c bg" using Some by (rule tryDirections_compliant)
  show ?thesis
  proof (cases "i = snd pr")
    case True
    then show ?thesis using c assms(1) by (simp add: eq)
  next
    case False
    then show ?thesis using assms(2) by (simp add: eq)
  qed
qed

lemma fold_adjustHuePair_guard:
  assumes "i < length p" "p ! i = q ! i \<or> m \<le> getContrastRatio (p ! i) bg"
  shows "fold (adjustHuePair bg m mx) prs p ! i = q ! i
         \<or> m \<le> getContrastRatio (fold (adjustHuePair bg m mx) prs p ! i) bg"
  using assms
proof (induction prs arbitrary: p)
  case Nil
  then show ?case by simp
next
  case (Cons pr prs)
  have "i < length (adjustHuePair bg m mx pr p)" using Cons.prems(1) by simp
  moreover have "adjustHuePair bg m mx pr p ! i = q ! i
         \<or> m \<le> getContrastRatio (adjustHuePair bg m mx pr p ! i) bg"
    using Cons.prems by (rule adjustHuePair_guard)
  ultimately show ?case using Cons.IH by simp
qed

lemma applyMinimalHueAdjustments_guard:
  assumes "i < length p"
  shows "applyMinimalHueAdjustments p bg m mx ! i = p ! i
         \<or> m \<le> getContrastRatio (applyMinimalHueAdjustments p bg m mx ! i) bg"
  unfolding applyMinimalHueAdjustments_def
  using assms by (intro fold_adjustHuePair_guard) simp_all

section \<open>A run that loses the contrast level\<close>

subsection \<open>Rational bounds on the gamma curve\<close>

text \<open>The power \<open>x powr 2.4\<close> lies below \<open>q\<close> when \<open>x ^ 12\<close> lies below \<open>q ^ 5\<close>, and
  above it in the other case; so a luminance is compared with a rational number by
  rational arithmetic.\<close>

lemma fifth_root_of_fifth_power:
  fixes q :: real
  assumes "0 \<le> q"
  shows "(q ^ 5) powr (1 / 5) = q"
proof (cases "q = 0")
  case True
  then show ?thesis by simp
next
  case False
  then have "0 < q" using assms by simp
  then show ?thesis by (simp add: powr_def ln_realpow)
qed

lemma powr_12_5_eq:
  fixes x :: real
  assumes "0 \<le> x"
  shows "x powr (12 / 5) = (x ^ 12) powr (1 / 5)"
proof -
  have "x powr (12 / 5) = (x powr 12) powr (1 / 5)" by (simp add: powr_powr)
  then show ?thesis using assms by simp
qed

lemma powr_12_5_le:
  fixes x q :: real
  assumes "0 \<le> x" "0 \<le> q" "x ^ 12 \<le> q ^ 5"
  shows "x powr (12 / 5) \<le> q"
proof -
  have "(x ^ 12) powr (1 / 5) \<le> (q ^ 5) powr (1 / 5)"
    using assms by (intro powr_mono2) simp_all
  then show ?thesis
    by (simp only: powr_12_5_eq[OF assms(1)] fifth_root_of_fifth_power[OF assms(2)])
qed

lemma powr_12_5_ge:
  fixes x q :: real
  assumes "0 \<le> x" "0 \<le> q" "q ^ 5 \<le> x ^ 12"
  shows "q \<le> x powr (12 / 5)"
proof -
  have "(q ^ 5) powr (1 / 5) \<le> (x ^ 12) powr (1 / 5)"
    using assms by (intro powr_mono2) simp_all
  then show ?thesis
    by (simp only: powr_12_5_eq[OF assms(1)] fifth_root_of_fifth_power[OF assms(2)])
qed

lemma linearize_upper:
  assumes "0 \<le> c" "0 \<le> q" "c / 255 / 12.92 \<le> q"
    and "((c / 255 + 0.055) / 1.055) ^ 12 \<le> q ^ 5"
  shows "linearize c \<le> q"
proof (cases "c / 255 \<le> 0.03928")
  case True
  then show ?thesis using assms(3) by (simp add: linearize_def Let_def)
next
  case False
  have e: "(2.4 :: real) = 12 / 5" by simp
  have "((c / 255 + 0.055) / 1.055) powr (12 / 5) \<le> q"
    using assms by (intro powr_12_5_le) simp_all
  then show ?thesis using False by (simp only: linearize_def Let_def e if_False)
qed

lemma linearize_lower:
  assumes "0.03928 < c / 255" "0 \<le> q"
    and "q ^ 5 \<le> ((c / 255 + 0.055) / 1.055) ^ 12"
  shows "q \<le> linearize c"
proof -
  have e: "(2.4 :: real) = 12 / 5" by simp
  have c: "\<not> c / 255 \<le> 0.03928" using assms(1) by simp
  have "0 \<le> c" using assms(1) by simp
  then have "q \<le> ((c / 255 + 0.055) / 1.055) powr (12 / 5)"
    using assms by (intro powr_12_5_ge) simp_all
  then show ?thesis using c by (simp only: linearize_def Let_def e if_False)
qed

lemma rgb_270_55_45:
  "hslToRgb 270 55 45 = \<lparr>rgb_r = 459 / 4, rgb_g = 4131 / 80, rgb_b = 14229 / 80\<rparr>"
  by (simp add: hslToRgb_def hue2rgb_def Let_def)

lemma lum_270_55_45: "getLuminance (fromHsl 270 55 45) \<le> 0.1"
proof -
  have r: "linearize (459 / 4) \<le> 0.172" by (rule linearize_upper) (simp_all add: power_divide)
  have g: "linearize (4131 / 80) \<le> 0.035" by (rule linearize_upper) (simp_all add: power_divide)
  have b: "linearize (14229 / 80) \<le> 0.446" by (rule linearize_upper) (simp_all add: power_divide)
  show ?thesis using r g b by (simp add: getLuminance_def rgb_270_55_45)
qed

lemma rgb_270_25_45:
  "hslToRgb 270 25 45 = \<lparr>rgb_r = 459 / 4, rgb_g = 1377 / 16, rgb_b = 2295 / 16\<rparr>"
  by (simp add: hslToRgb_def hue2rgb_def Let_def)

lemma lum_270_25_45: "0.1 < getLuminance (fromHsl 270 25 45)"
proof -
  have r: "0.17 \<le> linearize (459 / 4)" by (rule linearize_lower) (simp_all add: power_divide)
  have g: "0.093 \<le> linearize (1377 / 16)" by (rule linearize_lower) (simp_all add: power_divide)
  have b: "0.276 \<le> linearize (2295 / 16)" by (rule linearize_lower) (simp_all add: power_divide)
  show ?thesis using r g b by (simp add: getLuminance_def rgb_270_25_45)
qed

subsection \<open>The base colour \<open>#003399\<close>\<close>

lemma ColorUtil_new_navy: "ColorUtil_new ''#003399'' = Inr (Some navy)"
  by (simp add: parse_defs navy_def)

lemma hsl_navy: "hsl navy = \<lparr>hsl_h = 220, hsl_s = 100, hsl_l = 30\<rparr>"
  by (simp add: navy_def rgbToHsl_def Let_def)

lemma validChannels_navy: "validChannels navy"
  by (simp add: validChannels_def navy_def)

lemma contrast_white:
  assumes "validChannels c"
  shows "getContrastRatio c white = 1.05 / (getLuminance c + 0.05)"
  using getLuminance_bounds[OF assms]
  by (simp add: getContrastRatio_def Let_def white_lum max_def min_def)

lemma contrast_white_ge7:
  assumes "validChannels c" "getLuminance c \<le> 0.1"
  shows "7 \<le> getContrastRatio c white"
  using getLuminance_bounds(1)[OF assms(1)] assms(2)
  by (simp add: contrast_white[OF assms(1)] le_divide_eq)

lemma contrast_white_lt7:
  assumes "validChannels c" "0.1 < getLuminance c"
  shows "getContrastRatio c white < 7"
  using getLuminance_bounds(1)[OF assms(1)] assms(2)
  by (simp add: contrast_white[OF assms(1)] divide_less_eq)

lemma lum_navy: "getLuminance navy \<le> 0.1"
proof -
  have r: "linearize 0 = 0" by (simp add: linearize_def)
  have g: "linearize 51 \<le> 0.034" by (rule linearize_upper) (simp_all add: power_divide)
  have b: "linearize 153 \<le> 0.32" by (rule linearize_upper) (simp_all add: power_divide)
  show ?thesis using r g b by (simp add: getLuminance_def navy_def)
qed

lemma rgb_245_70_50:
  "hslToRgb 245 70 50 = \<lparr>rgb_r = 425 / 8, rgb_g = 153 / 4, rgb_b = 867 / 4\<rparr>"
  by (simp add: hslToRgb_def hue2rgb_def Let_def)

lemma lum_245_70_50: "getLuminance (fromHsl 245 70 50) \<le> 0.1"
proof -
  have r: "linearize (425 / 8) \<le> 0.036" by (rule linearize_upper) (simp_all add: power_divide)
  have g: "linearize (153 / 4) \<le> 0.02" by (rule linearize_upper) (simp_all add: power_divide)
  have b: "linearize (867 / 4) \<le> 0.693" by (rule linearize_upper) (simp_all add: power_divide)
  show ?thesis using r g b by (simp add: getLuminance_def rgb_245_70_50)
qed

lemma rgb_245_70_35:
  "hslToRgb 245 70 35 = \<lparr>rgb_r = 595 / 16, rgb_g = 1071 / 40, rgb_b = 6069 / 40\<rparr>"
  by (simp add: hslToRgb_def hue2rgb_def Let_def)

lemma lum_245_70_35: "getLuminance (fromHsl 245 70 35) \<le> 0.1"
proof -
  have r: "linearize (595 / 16) \<le> 0.019" by (rule linearize_upper) (simp_all add: power_divide)
  have g: "linearize (1071 / 40) \<le> 0.011" by (rule linearize_upper) (simp_all add: power_divide)
  have b: "linearize (6069 / 40) \<le> 0.313" by (rule linearize_upper) (simp_all add: power_divide)
  show ?thesis using r g b by (simp add: getLuminance_def rgb_245_70_35)
qed

lemma rgb_270_55_55:
  "hslToRgb 270 55 55 = \<lparr>rgb_r = 561 / 4, rgb_g = 6171 / 80, rgb_b = 16269 / 80\<rparr>"
  by (simp add: hslToRgb_def hue2rgb_def Let_def)

lemma lum_270_55_55: "0.1 < getLuminance (fromHsl 270 55 55)"
proof -
  have r: "0.263 \<le> linearize (561 / 4)" by (rule linearize_lower) (simp_all add: power_divide)
  have g: "0.074 \<le> linearize (6171 / 80)" by (rule linearize_lower) (simp_all add: power_divide)
  have b: "0.599 \<le> linearize (16269 / 80)" by (rule linearize_lower) (simp_all add: power_divide)
  show ?thesis using r g b by (simp add: getLuminance_def rgb_270_55_55)
qed

lemma rgb_270_55_50:
  "hslToRgb 270 55 50 = \<lparr>rgb_r = 255 / 2, rgb_g = 459 / 8, rgb_b = 1581 / 8\<rparr>"
  by (simp add: hslToRgb_def hue2rgb_def Let_def)

lemma lum_270_55_50: "0.1 < getLuminance (fromHsl 270 55 50)"
proof -
  have r: "0.213 \<le> linearize (255 / 2)" by (rule linearize_lower) (simp_all add: power_divide)
  have g: "0.041 \<le> linearize (459 / 8)" by (rule linearize_lower) (simp_all add: power_divide)
  have b: "0.562 \<le> linearize (1581 / 8)" by (rule linearize_lower) (simp_all add: power_divide)
  show ?thesis using r g b by (simp add: getLuminance_def rgb_270_55_50)
qed

lemma valid_sample [simp]:
  "validChannels (fromHsl 245 70 50)" "validChannels (fromHsl 245 70 35)"
  "validChannels (fromHsl 270 55 55)" "validChannels (fromHsl 270 55 50)"
  "validChannels (fromHsl 270 55 45)" "validChannels (fromHsl 270 25 45)"
  by (rule fromHsl_valid; simp)+

lemma mapIndexed_3: "mapIndexed f [a, b, c] = [f 0 a, f 1 b, f 2 c]"
  by (simp add: mapIndexed_def upt_rec numeral_2_eq_2)

lemma applySimpleDifferentiation_general:
  assumes "\<not> hueWithin5 p" "p \<noteq> []"
  shows "applySimpleDifferentiation this p bg m ds =
           Inr (applyMinimalHueAdjustments
                  (adjustSaturationForDifferentiation
                     (distributeColorsOptimally p bg m
                        (if minLuminanceDifference ds = 0 then 10
                         else minLuminanceDifference ds)) 20)
                  bg m 10)"
proof -
  have "\<not> list_all (\<lambda>c. getCircularHueDistance (hsl_h (hsl c)) (hsl_h (hsl (hd p))) < 5) p"
    using assms by (simp add: hueWithin5_def hd_nth0)
  then show ?thesis
    by (simp add: applySimpleDifferentiation_def Let_def)
qed

lemma base_navy:
  "generateBaseColors ''#003399'' Analogous 3
     = Inr [navy, fromHsl 245 70 50, fromHsl 270 55 45]"
proof -
  have h: "colorHarmonies Analogous 220 = [220, 245, 270, 195, 170]"
    by (simp add: colorHarmonies_def jsmod_def trunc_def)
  have g1: "generateColorFromHarmony navy [220, 245, 270, 195, 170] Analogous (Suc 0) 3
              = Inr (fromHsl 245 70 50)"
    by (simp add: generateColorFromHarmony_def Let_def nthOr_def nthOpt_def)
  have g2: "generateColorFromHarmony navy [220, 245, 270, 195, 170] Analogous (Suc (Suc 0)) 3
              = Inr (fromHsl 270 55 45)"
    by (simp add: generateColorFromHarmony_def Let_def nthOr_def nthOpt_def)
  have "baseColorsLoop ''#003399'' navy [220, 245, 270, 195, 170] Analogous 3 0 []
      = baseColorsLoop ''#003399'' navy [220, 245, 270, 195, 170] Analogous 3 (Suc 0) [navy]"
    by (rule baseColorsLoop_first) (simp_all add: ColorUtil_new_navy)
  also have "\<dots> = baseColorsLoop ''#003399'' navy [220, 245, 270, 195, 170] Analogous 3
                      (Suc (Suc 0)) ([navy] @ [fromHsl 245 70 50])"
    by (rule baseColorsLoop_next) (simp_all add: g1)
  also have "\<dots> = baseColorsLoop ''#003399'' navy [220, 245, 270, 195, 170] Analogous 3
                      (Suc (Suc (Suc 0))) (([navy] @ [fromHsl 245 70 50]) @ [fromHsl 270 55 45])"
    by (rule baseColorsLoop_next) (simp_all add: g2)
  also have "\<dots> = Inr (([navy] @ [fromHsl 245 70 50]) @ [fromHsl 270 55 45])"
    by (rule baseColorsLoop_done) simp
  finally show ?thesis
    by (simp add: generateBaseColors_def ColorUtil_new_navy Let_def hsl_navy h)
qed

lemma optimized_navy:
  "generateOptimizedPalette this [navy, fromHsl 245 70 50, fromHsl 270 55 45] white 7
     = [navy, fromHsl 245 70 50, fromHsl 270 55 45]"
proof -
  have "7 \<le> getContrastRatio navy white"
    by (rule contrast_white_ge7[OF validChannels_navy lum_navy])
  moreover have "7 \<le> getContrastRatio (fromHsl 245 70 50) white"
    by (rule contrast_white_ge7[OF _ lum_245_70_50]) simp
  moreover have "7 \<le> getContrastRatio (fromHsl 270 55 45) white"
    by (rule contrast_white_ge7[OF _ lum_270_55_45]) simp
  ultimately show ?thesis
    by (simp add: generateOptimizedPalette_def mapIndexed_3 optimizeColorForBackground_def Let_def)
qed

lemma adjustColorToTargetLightness_sameHueSat:
  "sameHueSat (hsl c) (adjustColorToTargetLightness c bg m tgt)"
proof -
  have "adjustLoop x bg m tgt dir a = Some c' \<Longrightarrow> sameHueSat x c'" for x dir a c'
  proof (induction x bg m tgt dir a rule: adjustLoop.induct)
    case (1 x bg m tgt dir a)
    from "1.prems" show ?case
      by (subst (asm) adjustLoop.simps)
         (auto simp: Let_def split: if_splits dest: "1.IH"[rotated -1])
  qed
  then show ?thesis
    by (auto simp: adjustColorToTargetLightness_def Let_def sameHueSat_def split: option.splits)
qed

lemma adjust_navy_1:
  "adjustColorToTargetLightness (fromHsl 245 70 50) white 7 35 = fromHsl 245 70 35"
proof -
  have "7 \<le> getContrastRatio (fromHsl 245 70 35) white"
    by (rule contrast_white_ge7[OF _ lum_245_70_35]) simp
  then show ?thesis by (simp add: adjustColorToTargetLightness_def Let_def)
qed

lemma adjust_navy_2:
  "adjustColorToTargetLightness (fromHsl 270 55 45) white 7 55 = fromHsl 270 55 45"
proof -
  have a: "\<not> 7 \<le> getContrastRatio (fromHsl 270 55 55) white"
    using contrast_white_lt7[OF _ lum_270_55_55] by simp
  have b: "\<not> 7 \<le> getContrastRatio (fromHsl 270 55 50) white"
    using contrast_white_lt7[OF _ lum_270_55_50] by simp
  have c: "7 \<le> getContrastRatio (fromHsl 270 55 45) white"
    by (rule contrast_white_ge7[OF _ lum_270_55_45]) simp
  have "adjustLoop \<lparr>hsl_h = 270, hsl_s = 55, hsl_l = 45\<rparr> white 7 55 (- 1) 10
          = Some (fromHsl 270 55 45)"
    using c by (subst adjustLoop.simps) (simp add: Let_def)
  then have "adjustLoop \<lparr>hsl_h = 270, hsl_s = 55, hsl_l = 45\<rparr> white 7 55 (- 1) 5
          = Some (fromHsl 270 55 45)"
    using b by (subst adjustLoop.simps) (simp add: Let_def)
  then show ?thesis
    using a by (simp add: adjustColorToTargetLightness_def Let_def isLightBackground_white)
qed

lemma hueDistance_sample:
  "getCircularHueDistance 245 220 = 25" "getCircularHueDistance 220 245 = 25"
  "getCircularHueDistance 220 270 = 50" "getCircularHueDistance 245 270 = 25"
  by (simp_all add: getCircularHueDistance_def Let_def jsmod_def trunc_def)

lemma differentiate_navy:
  fixes this ds
  defines "x0 \<equiv> adjustColorToTargetLightness navy white 7 15"
  shows "applySimpleDifferentiation this [navy, fromHsl 245 70 50, fromHsl 270 55 45] white 7 ds
           = Inr [x0, fromHsl 245 70 35, fromHsl 270 25 45]"
proof -
  have x0: "hsl_h (hsl x0) = 220" "hsl_s (hsl x0) = 100"
    using adjustColorToTargetLightness_sameHueSat[of navy white 7 15]
    by (simp_all add: x0_def sameHueSat_def hsl_navy)
  have mono: "\<not> hueWithin5 [navy, fromHsl 245 70 50, fromHsl 270 55 45]"
    by (simp add: hueWithin5_def hsl_navy hueDistance_sample)
  have s1: "distributeColorsOptimally [navy, fromHsl 245 70 50, fromHsl 270 55 45] white 7 d
              = [x0, fromHsl 245 70 35, fromHsl 270 55 45]" for d
    by (simp add: distributeColorsOptimally_def Let_def mapIndexed_3 isLightBackground_white
          getOptimalLightnessDistribution_def nthOpt_def adjust_navy_1 adjust_navy_2 x0_def)
  have p2: "similarSaturationPairs [x0, fromHsl 245 70 35, fromHsl 270 55 45] 20 = [(1, 2)]"
    by (simp add: similarSaturationPairs_def Let_def upt_rec x0)
  have s2: "adjustSaturationForDifferentiation [x0, fromHsl 245 70 35, fromHsl 270 55 45] 20
              = [x0, fromHsl 245 70 35, fromHsl 270 25 45]"
    by (simp add: adjustSaturationForDifferentiation_def p2 adjustSaturationPair_def Let_def)
  have p3: "veryClosePairs [x0, fromHsl 245 70 35, fromHsl 270 25 45] = []"
    by (simp add: veryClosePairs_def Let_def upt_rec x0 hueDistance_sample)
  have s3: "applyMinimalHueAdjustments [x0, fromHsl 245 70 35, fromHsl 270 25 45] white 7 mx
              = [x0, fromHsl 245 70 35, fromHsl 270 25 45]" for mx
    by (simp add: applyMinimalHueAdjustments_def p3)
  show ?thesis
    using applySimpleDifferentiation_general[OF mono, of this white 7 ds]
    by (simp add: s1 s2 s3)
qed

subsection \<open>A palette whose hues are exactly 5 degrees apart\<close>

lemma hueDistance_boundary:
  "getCircularHueDistance 200 200 = 0" "getCircularHueDistance 205 200 = 5"
  by (simp_all add: getCircularHueDistance_def Let_def jsmod_def trunc_def)

lemma boundaryPalette_hsl:
  "length boundaryPalette = 3"
  "hsl_h (hsl (boundaryPalette ! 0)) = 200" "hsl_s (hsl (boundaryPalette ! 0)) = 30"
  "hsl_h (hsl (boundaryPalette ! Suc 0)) = 205" "hsl_h (hsl (boundaryPalette ! 2)) = 205"
proof -
  show "length boundaryPalette = 3" by (simp add: boundaryPalette_def boundaryBase_def)
  have "i < length boundaryBase \<Longrightarrow> sameHueSat (hsl (boundaryBase ! i)) (boundaryPalette ! i)" for i
    unfolding boundaryPalette_def by (rule generateOptimizedPalette_sameHueSat)
  from this[of 0] this[of 1] this[of 2]
  show "hsl_h (hsl (boundaryPalette ! 0)) = 200" "hsl_s (hsl (boundaryPalette ! 0)) = 30"
    "hsl_h (hsl (boundaryPalette ! Suc 0)) = 205" "hsl_h (hsl (boundaryPalette ! 2)) = 205"
    by (simp_all add: boundaryBase_def sameHueSat_def)
qed

section \<open>The claims\<close>

text \<open>
  C1. The failing input: the base colour \<open>#003399\<close>, three slots, the analogous
  harmony, level AAA, differentiation enabled. On white, slot 2 is \<open>hsl(270, 55, 45)\<close>
  after optimization and its contrast reaches 7. Stage 1 keeps it (the targets 55 and
  50 fail, 45 passes); stage 2 finds slots 1 and 2 similar and lowers the saturation of
  slot 2 to 25 without computing a contrast; stage 3 finds no close pair. The slot ends
  as \<open>hsl(270, 25, 45)\<close>, whose contrast is below 7: below the level required, and below
  the contrast the slot had after optimization.
\<close>

theorem differentiation_loses_contrast_level:
  "\<exists>res. fst (generatePalette PaletteGenerator_new navyOptions) = Inr res
      \<and> generateOptimizedPalette PaletteGenerator_new (base res) white 7 ! 2
          = fromHsl 270 55 45
      \<and> 7 \<le> getContrastRatio (fromHsl 270 55 45) white
      \<and> lightOptimized res ! 2 = fromHsl 270 25 45
      \<and> getContrastRatio (fromHsl 270 25 45) white < 7"
proof -
  define bs where "bs = [navy, fromHsl 245 70 50, fromHsl 270 55 45]"
  define this where "this = PaletteGenerator_new\<lparr>harmonyType := Analogous\<rparr>"
  define ds where "ds = differentiationSettings navyOptions"
  define r where "r = [adjustColorToTargetLightness navy white 7 15, fromHsl 245 70 35,
                       fromHsl 270 25 45]"
  have w: "whiteColor this = white" "darkBgColor this = darkBg"
    by (simp_all add: this_def PaletteGenerator_new_def)
  have opts: "baseColor navyOptions = ''#003399''" "optHarmonyType navyOptions = Analogous"
    "validateSize (paletteSize navyOptions) = 3" "enabled (differentiationSettings navyOptions)"
    "wcagLevel navyOptions = AAA"
    by (simp_all add: navyOptions_def defaultOptions_def validateSize_eq)
  obtain d where d: "applySimpleDifferentiation this
      (generateOptimizedPalette this bs darkBg 7) darkBg 7 ds = Inr d"
  proof -
    define dc where "dc = generateOptimizedPalette this bs darkBg 7"
    have "length dc = 3" by (simp add: dc_def bs_def)
    then have "dc \<noteq> []" "length dc \<le> 5" by auto
    from applySimpleDifferentiation_ok[OF this] that show ?thesis
      unfolding dc_def by blast
  qed
  have "fst (generatePalette PaletteGenerator_new navyOptions)
          = Inr \<lparr>base = bs, lightOptimized = r, darkOptimized = d\<rparr>"
  proof (rule generatePalette_enabled[where this' = this and m = 7])
    show "this = PaletteGenerator_new\<lparr>harmonyType := optHarmonyType navyOptions\<rparr>"
      by (simp add: this_def opts)
    show "7 = (if wcagLevel navyOptions = AAA then 7 else (4.5 :: real))"
      by (simp add: opts)
    show "generateBaseColors (baseColor navyOptions) (optHarmonyType navyOptions)
            (validateSize (paletteSize navyOptions)) = Inr bs"
      by (simp add: opts base_navy bs_def)
    show "enabled (differentiationSettings navyOptions)" by (rule opts)
    show "applySimpleDifferentiation this (generateOptimizedPalette this bs (whiteColor this) 7)
            (whiteColor this) 7 (differentiationSettings navyOptions) = Inr r"
      by (simp add: w bs_def optimized_navy differentiate_navy r_def)
    show "applySimpleDifferentiation this (generateOptimizedPalette this bs (darkBgColor this) 7)
            (darkBgColor this) 7 (differentiationSettings navyOptions) = Inr d"
      using d by (simp add: w ds_def)
  qed
  moreover have "generateOptimizedPalette PaletteGenerator_new bs white 7 ! 2 = fromHsl 270 55 45"
    by (simp add: bs_def optimized_navy)
  moreover have "7 \<le> getContrastRatio (fromHsl 270 55 45) white"
    by (rule contrast_white_ge7[OF _ lum_270_55_45]) simp
  moreover have "getContrastRatio (fromHsl 270 25 45) white < 7"
    by (rule contrast_white_lt7[OF _ lum_270_25_45]) simp
  ultimately show ?thesis by (simp add: r_def)
qed

text \<open>
  A second run, where the contrast of a slot drops although the level is kept: the base
  colour \<open>#000000\<close>, three slots, the triadic harmony, level AA. On white, slot 0 is
  \<open>#000000\<close> after optimization, with contrast 21; stage 1 replaces it by the colour of
  lightness 15 (\<open>#262626\<close>), the later stages never write slot 0, and the contrast of
  the slot has dropped below 21.
\<close>

lemma differentiation_lowers_contrast_of_black:
  "\<exists>res. fst (generatePalette PaletteGenerator_new blackOptions) = Inr res
      \<and> generateOptimizedPalette PaletteGenerator_new (base res) white 4.5 ! 0 = black
      \<and> getContrastRatio black white = 21
      \<and> lightOptimized res ! 0 = fromHsl 0 0 15
      \<and> getContrastRatio (lightOptimized res ! 0) white < 21"
proof -
  define m :: real where "m = 4.5"
  define bs where "bs = [black, fromHsl 120 75 50, fromHsl 240 60 35]"
  define this where "this = PaletteGenerator_new\<lparr>harmonyType := Triadic\<rparr>"
  define lc where "lc = generateOptimizedPalette this bs white m"
  define dc where "dc = generateOptimizedPalette this bs darkBg m"
  define ds where "ds = differentiationSettings blackOptions"
  have m: "m \<le> 21" "m \<le> 4.5" by (simp_all add: m_def)
  have this_eq: "this = PaletteGenerator_new"
    by (simp add: this_def PaletteGenerator_new_def)
  have w: "whiteColor this = white" "darkBgColor this = darkBg"
    by (simp_all add: this_def PaletteGenerator_new_def)
  have len: "length lc = 3" "length dc = 3" by (simp_all add: lc_def dc_def bs_def)
  have lc0: "lc ! 0 = black"
    by (simp add: lc_def generateOptimizedPalette_def bs_def optimize_black[OF m(1)])
  have "sameHueSat (hsl (bs ! 1)) (lc ! 1)"
    unfolding lc_def by (rule generateOptimizedPalette_sameHueSat) (simp add: bs_def)
  then have lc1: "hsl_h (hsl (lc ! 1)) = 120" by (simp add: sameHueSat_def bs_def)
  have "\<not> hueWithin5 lc"
  proof
    assume "hueWithin5 lc"
    then have "getCircularHueDistance (hsl_h (hsl (lc ! 1))) (hsl_h (hsl (lc ! 0))) < 5"
      using len by (simp add: hueWithin5_def list_all_length)
    then show False unfolding lc0 lc1 hsl_black by (simp add: hueDistance_120_0)
  qed
  moreover have ne: "lc \<noteq> []" "dc \<noteq> []" using len by auto
  ultimately obtain r where r: "applySimpleDifferentiation this lc white m ds = Inr r"
    and r0: "r ! 0 = adjustColorToTargetLightness (lc ! 0) white m
               (getOptimalLightnessDistribution (length lc) (isLightBackground white) ! 0)"
    using applySimpleDifferentiation_general_nth0[of lc this white m ds] by blast
  have r0': "r ! 0 = fromHsl 0 0 15"
    by (simp add: r0 lc0 len getOptimalLightnessDistribution_def isLightBackground_white
          adjust_black[OF m(2)])
  obtain d where d: "applySimpleDifferentiation this dc darkBg m ds = Inr d"
    using applySimpleDifferentiation_ok[of dc this darkBg m ds] ne len by auto
  have opts: "baseColor blackOptions = ''#000000''" "optHarmonyType blackOptions = Triadic"
    "validateSize (paletteSize blackOptions) = 3" "enabled (differentiationSettings blackOptions)"
    "wcagLevel blackOptions = AA"
    by (simp_all add: blackOptions_def defaultOptions_def validateSize_eq)
  have "fst (generatePalette PaletteGenerator_new blackOptions)
          = Inr \<lparr>base = bs, lightOptimized = r, darkOptimized = d\<rparr>"
  proof (rule generatePalette_enabled[where this' = this and m = m])
    show "this = PaletteGenerator_new\<lparr>harmonyType := optHarmonyType blackOptions\<rparr>"
      by (simp add: this_def opts)
    show "m = (if wcagLevel blackOptions = AAA then 7 else 4.5)"
      by (simp add: m_def opts)
    show "generateBaseColors (baseColor blackOptions) (optHarmonyType blackOptions)
            (validateSize (paletteSize blackOptions)) = Inr bs"
      by (simp add: opts base_black bs_def)
    show "enabled (differentiationSettings blackOptions)" by (rule opts)
    show "applySimpleDifferentiation this (generateOptimizedPalette this bs (whiteColor this) m)
            (whiteColor this) m (differentiationSettings blackOptions) = Inr r"
      using r by (simp add: w lc_def ds_def)
    show "applySimpleDifferentiation this (generateOptimizedPalette this bs (darkBgColor this) m)
            (darkBgColor this) m (differentiationSettings blackOptions) = Inr d"
      using d by (simp add: w dc_def ds_def)
  qed
  moreover have "generateOptimizedPalette PaletteGenerator_new bs white 4.5 ! 0 = black"
    using lc0 by (simp add: lc_def this_eq m_def)
  ultimately show ?thesis
    using r0' contrast_dark_grey(2) contrast_black_white by simp
qed

text \<open>
  C2. The failing input: the base colour \<open>#zzzzzz\<close>. \<open>generateBaseColors\<close> catches the
  error of the first \<open>new ColorUtil(baseColor)\<close> and takes the default colour, but slot 0
  evaluates \<open>new ColorUtil(baseColor)\<close> again outside the handler, and the error leaves
  \<open>generatePalette\<close>.
\<close>

theorem generatePalette_malformed_base_color_raises:
  "fst (generatePalette PaletteGenerator_new (defaultOptions\<lparr>baseColor := ''#zzzzzz''\<rparr>))
     = Inl TypeError"
  by (rule generatePalette_malformed) (simp add: wellFormedHex_def isHexDigit_def)

text \<open>
  C3. The result of \<open>generatePalette\<close> is a function of the options alone: the field
  \<open>harmonyType\<close>, the only state the generator keeps, is assigned before it is read.
  A second call with the same options returns the same palettes (and leaves the same
  generator), also after a call with other options in between.
\<close>

theorem generatePalette_deterministic:
  "generatePalette (snd (generatePalette this options)) options = generatePalette this options
   \<and> fst (generatePalette (snd (generatePalette this other)) options)
       = fst (generatePalette this options)"
  by (simp add: snd_generatePalette generatePalette_state_independent)

text \<open>
  C4. A colour whose contrast against the background already reaches the target ratio is
  returned unchanged by \<open>optimizeColorForBackground\<close>, whatever the target ratio is and
  also when the contrast lies above the upper bound of the band.
\<close>

theorem optimizeColorForBackground_keeps_compliant:
  "getContrastRatio originalColor backgroundColor \<ge> targetRatio \<Longrightarrow>
   optimizeColorForBackground this originalColor backgroundColor targetRatio colorIndex
     totalColors = originalColor"
  by (simp add: optimizeColorForBackground_def Let_def)

theorem optimizeColorForBackground_keeps_compliant_witness:
  "getContrastRatio black white \<ge> 4.5 \<and> getContrastRatio black white > 6.0
   \<and> optimizeColorForBackground PaletteGenerator_new black white 4.5 0 5 = black"
  using optimizeColorForBackground_keeps_compliant[of "4.5" black white PaletteGenerator_new 0 5]
  by (simp add: contrast_black_white)

text \<open>
  C5. Whatever \<open>findOptimalColor\<close> returns (a colour of the range scan, a colour of the
  expanded search, or the best colour seen) has the hue and the saturation of the
  original colour.
\<close>

theorem findOptimalColor_keeps_hue_saturation:
  "hsl_h (hsl (findOptimalColor this originalColor backgroundColor targetRatio upperBound
                 colorIndex totalColors)) = hsl_h (hsl originalColor)
   \<and> hsl_s (hsl (findOptimalColor this originalColor backgroundColor targetRatio upperBound
                   colorIndex totalColors)) = hsl_s (hsl originalColor)"
  using findOptimalColor_sameHueSat[of originalColor this backgroundColor targetRatio
          upperBound colorIndex totalColors]
  by (simp add: sameHueSat_def)

text \<open>
  C6, as the code has it. On a palette of three or five colours whose hues are all less
  than 5 degrees (circular distance) away from the hue of the first colour,
  differentiation returns, for every slot \<open>i\<close>: the colour whose hue is the first
  colour's hue plus 5 degrees times \<open>i\<close> (modulo 360), whose saturation is the larger of
  40 and the slot's previous saturation, and whose lightness is the entry \<open>i\<close> of the
  ladder (\<open>[15,50,85]\<close> for three colours, \<open>[10,30,50,70,90]\<close> for five), taken from 100
  when the background is dark; or, when that colour's contrast is below
  \<open>minContrastRatio\<close>, what \<open>findOptimalColor\<close> makes of it with the upper bound 1.5
  times \<open>minContrastRatio\<close>. The white background is light and \<open>#2c3e50\<close> is dark
  (lemmas \<open>isLightBackground_white\<close> and \<open>not_isLightBackground_darkBg\<close>).
\<close>

theorem monochromatic_path:
  assumes "length palette = 3 \<or> length palette = 5"
    and "hueWithin5 palette"
    and "i < length palette"
  shows "\<exists>res. applySimpleDifferentiation this palette bg m ds = Inr res
           \<and> length res = length palette
           \<and> hsl (monoSlot palette (isLightBackground bg) i) =
               \<lparr>hsl_h = jsmod (hsl_h (hsl (palette ! 0)) + 5 * real i) 360,
                hsl_s = max 40 (hsl_s (hsl (palette ! i))),
                hsl_l = (if isLightBackground bg then monoLadder (length palette) ! i
                         else 100 - monoLadder (length palette) ! i)\<rparr>
           \<and> res ! i =
               (if getContrastRatio (monoSlot palette (isLightBackground bg) i) bg < m
                then findOptimalColor this (monoSlot palette (isLightBackground bg) i) bg m
                       (1.5 * m) i (length palette)
                else monoSlot palette (isLightBackground bg) i)"
proof -
  have ne: "palette \<noteq> []" using assms(1) by auto
  have mono: "list_all (\<lambda>c. getCircularHueDistance (hsl_h (hsl c)) (hsl_h (hsl (hd palette))) < 5)
       palette"
    using assms(2) by (simp add: hueWithin5_def hd_nth0[OF ne])
  have "applySimpleDifferentiation this palette bg m ds =
          enhanceMonochromaticDifferentiation this palette bg m"
    using mono by (simp add: applySimpleDifferentiation_def Let_def)
  then show ?thesis
    using assms(3)
    by (simp add: enhanceMonochromaticDifferentiation_eq[OF assms(1)]
          ensureMinimumContrast_nth mult.commute monoSlot_def)
qed

theorem monochromatic_path_witness:
  "(length blackPalette = 3 \<or> length blackPalette = 5) \<and> hueWithin5 blackPalette
   \<and> 1 < length blackPalette
   \<and> (\<exists>res. applySimpleDifferentiation PaletteGenerator_new blackPalette white 4.5
               (differentiationSettings defaultOptions) = Inr res
          \<and> length res = length blackPalette
          \<and> hsl (monoSlot blackPalette (isLightBackground white) 1) =
               \<lparr>hsl_h = jsmod (hsl_h (hsl (blackPalette ! 0)) + 5 * real 1) 360,
                hsl_s = max 40 (hsl_s (hsl (blackPalette ! 1))),
                hsl_l = (if isLightBackground white then monoLadder (length blackPalette) ! 1
                         else 100 - monoLadder (length blackPalette) ! 1)\<rparr>
          \<and> res ! 1 =
               (if getContrastRatio (monoSlot blackPalette (isLightBackground white) 1) white
                     < 4.5
                then findOptimalColor PaletteGenerator_new
                       (monoSlot blackPalette (isLightBackground white) 1) white 4.5
                       (1.5 * 4.5) 1 (length blackPalette)
                else monoSlot blackPalette (isLightBackground white) 1))"
proof -
  have a: "length blackPalette = 3 \<or> length blackPalette = 5"
    by (simp add: blackPalette_def)
  have b: "hueWithin5 blackPalette"
    by (simp add: hueWithin5_def blackPalette_def hsl_black getCircularHueDistance_def
          jsmod_def trunc_def)
  have c: "1 < length blackPalette" by (simp add: blackPalette_def)
  show ?thesis
    using monochromatic_path[OF a b c, of PaletteGenerator_new white "4.5"
            "differentiationSettings defaultOptions"] a b c
    by blast
qed

text \<open>
  C6, as the claim states it, fails on the boundary. In the optimized palette
  \<open>boundaryPalette\<close> every hue is within 5 degrees of the first (the distances are 0, 5
  and 5), but the test of the code is strict, the general stages run, and slot 0 keeps
  its saturation 30 where the monochromatic treatment would raise it to 40.
\<close>

theorem monochromatic_boundary_counterexample:
  "list_all (\<lambda>c. getCircularHueDistance (hsl_h (hsl c)) (hsl_h (hsl (boundaryPalette ! 0))) \<le> 5)
     boundaryPalette
   \<and> (\<exists>res. applySimpleDifferentiation PaletteGenerator_new boundaryPalette white 4.5
               (differentiationSettings defaultOptions) = Inr res
          \<and> hsl_s (hsl (boundaryPalette ! 0)) = 30
          \<and> hsl_s (hsl (res ! 0)) = 30
          \<and> hsl_s (hsl (res ! 0)) \<noteq> max 40 (hsl_s (hsl (boundaryPalette ! 0))))"
proof -
  note h = boundaryPalette_hsl
  have ne: "boundaryPalette \<noteq> []" using h(1) by auto
  have "i < length boundaryPalette \<Longrightarrow>
          getCircularHueDistance (hsl_h (hsl (boundaryPalette ! i)))
            (hsl_h (hsl (boundaryPalette ! 0))) \<le> 5" for i
  proof -
    assume "i < length boundaryPalette"
    then consider "i = 0" | "i = 1" | "i = 2" using h(1) by linarith
    then show ?thesis by cases (simp_all add: h hueDistance_boundary)
  qed
  then have within: "list_all (\<lambda>c. getCircularHueDistance (hsl_h (hsl c))
                   (hsl_h (hsl (boundaryPalette ! 0))) \<le> 5) boundaryPalette"
    by (simp add: list_all_length)
  have "\<not> hueWithin5 boundaryPalette"
  proof
    assume "hueWithin5 boundaryPalette"
    then have "getCircularHueDistance (hsl_h (hsl (boundaryPalette ! Suc 0)))
                 (hsl_h (hsl (boundaryPalette ! 0))) < 5"
      using h(1) by (simp add: hueWithin5_def list_all_length)
    then show False unfolding h by (simp add: hueDistance_boundary)
  qed
  from applySimpleDifferentiation_general_nth0[OF this ne, of PaletteGenerator_new white "4.5"
         "differentiationSettings defaultOptions"]
  obtain r where r: "applySimpleDifferentiation PaletteGenerator_new boundaryPalette white 4.5
       (differentiationSettings defaultOptions) = Inr r"
    and r0: "r ! 0 = adjustColorToTargetLightness (boundaryPalette ! 0) white 4.5
               (getOptimalLightnessDistribution (length boundaryPalette)
                  (isLightBackground white) ! 0)"
    by blast
  have "sameHueSat (hsl (boundaryPalette ! 0)) (r ! 0)"
    unfolding r0 by (rule adjustColorToTargetLightness_sameHueSat)
  then have s: "hsl_s (hsl (r ! 0)) = 30" by (simp add: sameHueSat_def h)
  show ?thesis using within r s h(3) by auto
qed

text \<open>
  C7, as the code has it. \<open>validateSize\<close> reads the integer part of its argument first
  (\<open>parseInt\<close>): for a number that prints as a plain decimal it returns 3 for every
  size from 3 up to, not including, 4, and 5 for every other size. In particular 3 gives
  3, 5 gives 5, and the size 4 generates what the size 5 generates.
\<close>

theorem validateSize_integer_part:
  "validateSize 3 = 3 \<and> validateSize 5 = 5
   \<and> (plainDecimal x \<longrightarrow> validateSize x = (if 3 \<le> x \<and> x < 4 then 3 else 5))
   \<and> generatePalette this (options\<lparr>paletteSize := 4\<rparr>)
       = generatePalette this (options\<lparr>paletteSize := 5\<rparr>)"
  by (simp add: validateSize_eq generatePalette_def Let_def cong: if_cong sum.case_cong)

theorem validateSize_integer_part_witness:
  "plainDecimal 4 \<and> validateSize 4 = 5 \<and> validateSize 3 = 3 \<and> validateSize 5 = 5
   \<and> generatePalette PaletteGenerator_new (defaultOptions\<lparr>paletteSize := 4\<rparr>)
       = generatePalette PaletteGenerator_new (defaultOptions\<lparr>paletteSize := 5\<rparr>)"
proof -
  have p: "plainDecimal 4" by (simp add: plainDecimal_def)
  show ?thesis
    using validateSize_integer_part[of 4 PaletteGenerator_new defaultOptions] p by simp
qed

text \<open>
  C7, as the claim states it, fails: the size 3.5 is neither 3 nor 5 and is not replaced
  by 5.
\<close>

theorem validateSize_counterexample:
  "(7 / 2 :: real) \<noteq> 3 \<and> (7 / 2 :: real) \<noteq> 5 \<and> validateSize (7 / 2) = 3"
  by (simp add: validateSize_eq)

text \<open>
  C8, as the code has it. For a base colour that the constructor parses, that is \<open>#\<close>
  followed by six hexadecimal digits, whatever the harmony, the size and the other
  options are, generation returns palettes and slot 0 of the base palette is the object
  \<open>new ColorUtil(baseColor)\<close> itself: its \<open>hex\<close> is the string given, its \<open>hsl\<close> the
  conversion of the parsed channels, with no table and no clamp.
\<close>

theorem base_slot0_is_parsed_base_color:
  "wellFormedHex (baseColor options) \<Longrightarrow>
   \<exists>res. fst (generatePalette this options) = Inr res
      \<and> ColorUtil_new (baseColor options) = Inr (Some (base res ! 0))
      \<and> hex (base res ! 0) = baseColor options"
  using generatePalette_wellFormed[of options this]
    ColorUtil_new_wellFormed[of "baseColor options"]
  by (auto simp: parsedColor_def Let_def)

theorem base_slot0_is_parsed_base_color_witness:
  "wellFormedHex ''#5500AA''
   \<and> (\<exists>res. fst (generatePalette PaletteGenerator_new defaultOptions) = Inr res
      \<and> ColorUtil_new ''#5500AA'' = Inr (Some (base res ! 0))
      \<and> hex (base res ! 0) = ''#5500AA'')"
proof -
  have w: "wellFormedHex (baseColor defaultOptions)"
    by (simp add: defaultOptions_def wellFormedHex_def isHexDigit_def)
  have b: "baseColor defaultOptions = ''#5500AA''" by (simp add: defaultOptions_def)
  show ?thesis
    using base_slot0_is_parsed_base_color[OF w, of PaletteGenerator_new] w unfolding b
    by blast
qed

text \<open>
  C8, as the claim states it, fails on a hexadecimal colour written without \<open>#\<close>:
  \<open>hexToRgb\<close> reads \<open>5500AA\<close>, but the constructor assigns nothing and no base palette
  is generated.
\<close>

theorem base_color_without_hash_counterexample:
  "hexToRgb ''5500AA'' = Some \<lparr>rgb_r = 85, rgb_g = 0, rgb_b = 170\<rparr>
   \<and> fst (generatePalette PaletteGenerator_new (defaultOptions\<lparr>baseColor := ''5500AA''\<rparr>))
       = Inl TypeError"
proof -
  have "\<not> wellFormedHex (baseColor (defaultOptions\<lparr>baseColor := ''5500AA''\<rparr>))"
    by (simp add: wellFormedHex_def)
  then have "fst (generatePalette PaletteGenerator_new (defaultOptions\<lparr>baseColor := ''5500AA''\<rparr>))
       = Inl TypeError"
    by (rule generatePalette_malformed)
  moreover have "hexToRgb ''5500AA'' = Some \<lparr>rgb_r = 85, rgb_g = 0, rgb_b = 170\<rparr>"
    by (simp add: hexToRgb_def isHexDigit_def parseHexPair_def hexDigitValue_def)
  ultimately show ?thesis by simp
qed

text \<open>
  C9. The contrast ratio is symmetric in its two colours, and for colours whose channels
  lie in the range from 0 to 255 it lies between 1 and 21.
\<close>

theorem getContrastRatio_symmetric_bounded:
  "getContrastRatio a b = getContrastRatio b a
   \<and> (validChannels a \<and> validChannels b \<longrightarrow>
        1 \<le> getContrastRatio a b \<and> getContrastRatio a b \<le> 21)"
  using getContrastRatio_sym getContrastRatio_bounds by blast

theorem getContrastRatio_symmetric_bounded_witness:
  "validChannels black \<and> validChannels white
   \<and> getContrastRatio black white = getContrastRatio white black
   \<and> 1 \<le> getContrastRatio black white \<and> getContrastRatio black white \<le> 21"
  using getContrastRatio_symmetric_bounded[of black white] validChannels_black
    validChannels_white
  by blast

text \<open>
  C10. For a string that does not start with \<open>#\<close> the constructor returns the object
  without any field assigned and raises nothing; \<open>generateBaseColors\<close> then raises at
  the read \<open>color.hsl.h\<close>, which no handler encloses.
\<close>

theorem ColorUtil_new_without_hash:
  "\<not> startsWithHash str \<Longrightarrow>
   ColorUtil_new str = Inr None \<and> generateBaseColors str hType sz = Inl TypeError"
  by (simp add: ColorUtil_new_def generateBaseColors_def)

theorem ColorUtil_new_without_hash_witness:
  "\<not> startsWithHash ''5500AA'' \<and> ColorUtil_new ''5500AA'' = Inr None
   \<and> generateBaseColors ''5500AA'' Triadic 5 = Inl TypeError"
  using ColorUtil_new_without_hash[of "''5500AA''" Triadic 5]
  by (simp add: startsWithHash_def)

end
